theory Spec2Isabelle
  imports Complex_Main "HOL-Library.Word"
begin

section \<open>Values of the Go runtime that the client handles\<close>

text \<open>
  Go's \<open>error\<close> interface: a value of this type is a non-nil error, and a function
  result of type \<open>error option\<close> is Go's \<open>error\<close> with \<open>None\<close> for \<open>nil\<close>.
  \<open>errorString p cause\<close> is \<open>errors.New(fmt.Sprint(p, cause))\<close>, the only way the
  client builds an error of its own: its message is \<open>p\<close> followed by the message of
  \<open>cause\<close>.
\<close>

datatype error =
    EOF
  | ErrOther string
  | NumError string
  | ParseError string
  | SyntaxError
  | UnmarshalTypeError string string
  | errorString string error

text \<open>
  A \<open>float64\<close> by the number it denotes. The two zeros of IEEE 754 are one value here:
  the client only compares floats, and \<open>==\<close>, \<open><\<close> and \<open>>\<close> do not tell them apart.
  Every comparison with \<open>NaN\<close> is false.
\<close>

datatype float64 = NaN | NegInf | Finite rat | PosInf

fun flt :: "float64 \<Rightarrow> float64 \<Rightarrow> bool" where
  "flt NaN _ = False"
| "flt _ NaN = False"
| "flt NegInf NegInf = False"
| "flt NegInf _ = True"
| "flt (Finite a) (Finite b) = (a < b)"
| "flt (Finite a) PosInf = True"
| "flt (Finite a) NegInf = False"
| "flt PosInf _ = False"

fun feq :: "float64 \<Rightarrow> float64 \<Rightarrow> bool" where
  "feq NaN _ = False"
| "feq _ NaN = False"
| "feq a b = (a = b)"

definition fgt :: "float64 \<Rightarrow> float64 \<Rightarrow> bool" where
  "fgt a b = flt b a"

text \<open>
  A \<open>time.Time\<close>: the instant as seconds since January 1, year 1, 00:00:00 UTC and
  nanoseconds within the second, and the offset of its location in seconds east of UTC.
  \<open>IsZero\<close> looks at the instant only.
\<close>

record Time =
  sec :: int
  nsec :: int
  offset :: int

definition zeroTime :: Time where
  "zeroTime = \<lparr>sec = 0, nsec = 0, offset = 0\<rparr>"

definition IsZero :: "Time \<Rightarrow> bool" where
  "IsZero t = (sec t = 0 \<and> nsec t = 0)"

definition Unix :: "Time \<Rightarrow> 64 word" where
  "Unix t = word_of_int (sec t - 62135596800)"

definition Nanosecond :: "Time \<Rightarrow> int" where
  "Nanosecond t = nsec t"

section \<open>The standard library and the network\<close>

text \<open>
  A JSON line of the stream is kept as what the syntax check of \<open>json.Unmarshal\<close>
  makes of its bytes: \<open>Malformed\<close> when they are not one JSON value, and the value
  otherwise. A number keeps its literal, a string the text between its quotes, an
  object its members in the order of the line (a key may occur twice).
\<close>

datatype json =
    JNull
  | JBool bool
  | JNumber string
  | JString string
  | JArray "json list"
  | JObject "(string \<times> json) list"

datatype line = Malformed | Doc json

text \<open>
  One call of \<open>reader.ReadBytes('\n')\<close> returns a line or an error; a response body is
  the result of its n-th call, for every n, so a body may go on for ever. A body that
  ends does so with \<open>ReadErr EOF\<close>.
\<close>

datatype read = ReadOK line | ReadErr error

type_synonym Body = "nat \<Rightarrow> read"

record Request =
  Method :: string
  URL :: string
  Header :: "(string \<times> string) list"

definition Header_Set :: "Request \<Rightarrow> string \<Rightarrow> string \<Rightarrow> Request" where
  "Header_Set req k v = req\<lparr>Header := (k, v) # filter (\<lambda>h. fst h \<noteq> k) (Header req)\<rparr>"

text \<open>
  The functions of the standard library that the client calls, and the network behind
  them, are parameters of the model: \<open>ParseFloat s\<close> is \<open>strconv.ParseFloat(s, 64)\<close>
  and \<open>time_Parse s\<close> is \<open>time.Parse(time.RFC3339Nano, s)\<close>, each returning Go's pair
  of a value and an error; \<open>Time_UnmarshalText s\<close> is what \<open>UnmarshalJSON\<close> of
  \<open>time.Time\<close> does with the text between the quotes of a JSON string;
  \<open>http_NewRequest m u\<close> is the error of \<open>http.NewRequest(m, u, nil)\<close>, if any; and
  \<open>http_Do req\<close> is \<open>http.DefaultClient.Do(req)\<close>, an error or the response body.
\<close>

record stdlib =
  ParseFloat :: "string \<Rightarrow> float64 \<times> error option"
  time_Parse :: "string \<Rightarrow> Time \<times> error option"
  Time_UnmarshalText :: "string \<Rightarrow> error + Time"
  http_NewRequest :: "string \<Rightarrow> string \<Rightarrow> error option"
  http_Do :: "Request \<Rightarrow> error + Body"

section \<open>Quote and Tick\<close>

record Quote =
  Liquidity :: float64
  Price :: string

record Tick =
  Asks :: "Quote list"
  Bids :: "Quote list"
  CloseoutAsk :: string
  CloseoutBid :: string
  Instrument :: string
  Status :: string
  Time :: string
  Type :: string
  parsedTime :: Time

definition zeroTick :: Tick where
  "zeroTick = \<lparr>Asks = [], Bids = [], CloseoutAsk = [], CloseoutBid = [], Instrument = [],
     Status = [], Time = [], Type = [], parsedTime = zeroTime\<rparr>"

definition IsHeartbeat :: "Tick \<Rightarrow> bool" where
  "IsHeartbeat t = (''HEARTBEAT'' = Type t)"

definition IsTradeable :: "Tick \<Rightarrow> bool" where
  "IsTradeable t = (''tradeable'' = Status t)"

definition PriceAsFloat :: "stdlib \<Rightarrow> Quote \<Rightarrow> float64 \<times> error option" where
  "PriceAsFloat L q =
    (case ParseFloat L (Price q) of
       (val, Some err) \<Rightarrow> (Finite 0, Some err)
     | (val, None) \<Rightarrow> (val, None))"

text \<open>
  The \<open>range\<close> loops of \<open>BestAsk\<close> and \<open>BestBid\<close>, with the running \<open>best\<close> as the
  accumulator; a price that does not parse returns from the function at once.
\<close>

fun ask_loop :: "stdlib \<Rightarrow> Quote list \<Rightarrow> float64 \<Rightarrow> float64 \<times> error option" where
  "ask_loop L [] best = (best, None)"
| "ask_loop L (ask # rest) best =
    (case PriceAsFloat L ask of
       (val, Some err) \<Rightarrow> (Finite 0, Some err)
     | (val, None) \<Rightarrow>
         ask_loop L rest
           (if feq (Finite 0) best then val else if flt val best then val else best))"

definition BestAsk :: "stdlib \<Rightarrow> Tick \<Rightarrow> float64 \<times> error option" where
  "BestAsk L t =
    (if 0 = length (Asks t) then (Finite 0, None) else ask_loop L (Asks t) (Finite 0))"

fun bid_loop :: "stdlib \<Rightarrow> Quote list \<Rightarrow> float64 \<Rightarrow> float64 \<times> error option" where
  "bid_loop L [] best = (best, None)"
| "bid_loop L (bid # rest) best =
    (case PriceAsFloat L bid of
       (val, Some err) \<Rightarrow> (Finite 0, Some err)
     | (val, None) \<Rightarrow> bid_loop L rest (if fgt val best then val else best))"

definition BestBid :: "stdlib \<Rightarrow> Tick \<Rightarrow> float64 \<times> error option" where
  "BestBid L t =
    (if 0 = length (Bids t) then (Finite 0, None) else bid_loop L (Bids t) (Finite 0))"

text \<open>
  \<open>parseTime\<close> writes the cache field of the Tick it is called on, so it returns the
  Tick as it leaves it next to Go's result pair.
\<close>

definition parseTime :: "stdlib \<Rightarrow> Tick \<Rightarrow> (Time \<times> error option) \<times> Tick" where
  "parseTime L t =
    (if \<not> IsZero (parsedTime t) then ((parsedTime t, None), t)
     else
       (case time_Parse L (Time t) of
          (parsed, Some err) \<Rightarrow> ((parsed, Some err), t)
        | (parsed, None) \<Rightarrow> ((parsed, None), t\<lparr>parsedTime := parsed\<rparr>)))"

definition UnixTimestamp :: "stdlib \<Rightarrow> Tick \<Rightarrow> (64 word \<times> error option) \<times> Tick" where
  "UnixTimestamp L t =
    (case parseTime L t of
       ((parsed, Some err), t') \<Rightarrow> ((0, Some err), t')
     | ((parsed, None), t') \<Rightarrow> ((Unix parsed, None), t'))"

definition Nanoseconds :: "stdlib \<Rightarrow> Tick \<Rightarrow> (64 word \<times> error option) \<times> Tick" where
  "Nanoseconds L t =
    (case parseTime L t of
       ((parsed, Some err), t') \<Rightarrow> ((0, Some err), t')
     | ((parsed, None), t') \<Rightarrow> ((word_of_int (Nanosecond parsed), None), t'))"

section \<open>Decoding a line: \<open>json.Unmarshal\<close>\<close>

fun kind :: "json \<Rightarrow> string" where
  "kind JNull = ''null''"
| "kind (JBool _) = ''bool''"
| "kind (JNumber _) = ''number''"
| "kind (JString _) = ''string''"
| "kind (JArray _) = ''array''"
| "kind (JObject _) = ''object''"

text \<open>
  A key of an object selects the field whose name it equals when letter case is
  ignored. Two characters outside ASCII fold to ASCII letters, the long s
  (bytes C5 BF) to S and the Kelvin sign (bytes E2 84 AA) to K; no other does.
\<close>

definition upper :: "char \<Rightarrow> char" where
  "upper c =
    (case map_of (zip ''abcdefghijklmnopqrstuvwxyz'' ''ABCDEFGHIJKLMNOPQRSTUVWXYZ'') c of
       Some u \<Rightarrow> u
     | None \<Rightarrow> c)"

fun foldName :: "string \<Rightarrow> string" where
  "foldName (c # d # e # cs) =
    (if c = CHR 0xE2 \<and> d = CHR 0x84 \<and> e = CHR 0xAA then CHR ''K'' # foldName cs
     else if c = CHR 0xC5 \<and> d = CHR 0xBF then CHR ''S'' # foldName (e # cs)
     else upper c # foldName (d # e # cs))"
| "foldName [c, d] =
    (if c = CHR 0xC5 \<and> d = CHR 0xBF then ''S'' else [upper c, upper d])"
| "foldName [c] = [upper c]"
| "foldName [] = []"

definition key_is :: "string \<Rightarrow> string \<Rightarrow> bool" where
  "key_is name key = (foldName key = foldName name)"

text \<open>
  A value that does not fit its field is an \<open>UnmarshalTypeError\<close>: the decoder saves
  the first one, leaves the field as it was, goes on with the rest of the line and
  returns the saved error at the end. \<open>null\<close> leaves a string or a number as it was.
\<close>

definition keep :: "error option \<Rightarrow> error option \<Rightarrow> error option" where
  "keep saved new = (case saved of None \<Rightarrow> new | Some e \<Rightarrow> Some e)"

definition store_string :: "string \<Rightarrow> json \<Rightarrow> string \<Rightarrow> string \<times> error option" where
  "store_string field v old =
    (case v of
       JString s \<Rightarrow> (s, None)
     | JNull \<Rightarrow> (old, None)
     | _ \<Rightarrow> (old, Some (UnmarshalTypeError (kind v) field)))"

definition store_float :: "stdlib \<Rightarrow> string \<Rightarrow> json \<Rightarrow> float64 \<Rightarrow> float64 \<times> error option" where
  "store_float L field v old =
    (case v of
       JNumber s \<Rightarrow>
         (case ParseFloat L s of
            (n, None) \<Rightarrow> (n, None)
          | (n, Some err) \<Rightarrow> (old, Some (UnmarshalTypeError (''number '' @ s) field)))
     | JNull \<Rightarrow> (old, None)
     | _ \<Rightarrow> (old, Some (UnmarshalTypeError (kind v) field)))"

definition zeroQuote :: Quote where
  "zeroQuote = \<lparr>Liquidity = Finite 0, Price = []\<rparr>"

definition Quote_member :: "stdlib \<Rightarrow> Quote \<times> error option \<Rightarrow> string \<times> json \<Rightarrow> Quote \<times> error option" where
  "Quote_member L acc m =
    (case (acc, m) of ((q, saved), (k, v)) \<Rightarrow>
       if key_is ''liquidity'' k then
         (case store_float L ''Quote.liquidity'' v (Liquidity q) of
            (x, e) \<Rightarrow> (q\<lparr>Liquidity := x\<rparr>, keep saved e))
       else if key_is ''price'' k then
         (case store_string ''Quote.price'' v (Price q) of
            (x, e) \<Rightarrow> (q\<lparr>Price := x\<rparr>, keep saved e))
       else (q, saved))"

definition decode_Quote :: "stdlib \<Rightarrow> json \<Rightarrow> Quote \<times> error option" where
  "decode_Quote L v =
    (case v of
       JObject ms \<Rightarrow> foldl (Quote_member L) (zeroQuote, None) ms
     | JNull \<Rightarrow> (zeroQuote, None)
     | _ \<Rightarrow> (zeroQuote, Some (UnmarshalTypeError (kind v) ''Quote'')))"

text \<open>
  An array replaces the slice: its length is reset and one Quote is appended per
  element, as the package documents it. \<open>null\<close> makes the slice nil. (The decoder
  may decode an element into the memory of an old one; a quote of the feed carries both
  of its keys, so that nothing of the old one is left, and no property below rests on
  the fields of a decoded Quote that its line does not give.)
\<close>

definition store_Quotes :: "stdlib \<Rightarrow> string \<Rightarrow> json \<Rightarrow> Quote list \<Rightarrow> Quote list \<times> error option" where
  "store_Quotes L field v old =
    (case v of
       JArray es \<Rightarrow>
         (map (\<lambda>e. fst (decode_Quote L e)) es,
          foldl keep None (map (\<lambda>e. snd (decode_Quote L e)) es))
     | JNull \<Rightarrow> ([], None)
     | _ \<Rightarrow> (old, Some (UnmarshalTypeError (kind v) field)))"

text \<open>
  The fields of a Tick by their tags. \<open>parsedTime\<close> is unexported: no key reaches it.
  A field whose key is not in the line keeps the value it had.
\<close>

definition Tick_member :: "stdlib \<Rightarrow> Tick \<times> error option \<Rightarrow> string \<times> json \<Rightarrow> Tick \<times> error option" where
  "Tick_member L acc m =
    (case (acc, m) of ((t, saved), (k, v)) \<Rightarrow>
       if key_is ''asks'' k then
         (case store_Quotes L ''Tick.asks'' v (Asks t) of
            (x, e) \<Rightarrow> (t\<lparr>Asks := x\<rparr>, keep saved e))
       else if key_is ''bids'' k then
         (case store_Quotes L ''Tick.bids'' v (Bids t) of
            (x, e) \<Rightarrow> (t\<lparr>Bids := x\<rparr>, keep saved e))
       else if key_is ''closeoutAsk'' k then
         (case store_string ''Tick.closeoutAsk'' v (CloseoutAsk t) of
            (x, e) \<Rightarrow> (t\<lparr>CloseoutAsk := x\<rparr>, keep saved e))
       else if key_is ''closeoutBid'' k then
         (case store_string ''Tick.closeoutBid'' v (CloseoutBid t) of
            (x, e) \<Rightarrow> (t\<lparr>CloseoutBid := x\<rparr>, keep saved e))
       else if key_is ''instrument'' k then
         (case store_string ''Tick.instrument'' v (Instrument t) of
            (x, e) \<Rightarrow> (t\<lparr>Instrument := x\<rparr>, keep saved e))
       else if key_is ''status'' k then
         (case store_string ''Tick.status'' v (Status t) of
            (x, e) \<Rightarrow> (t\<lparr>Status := x\<rparr>, keep saved e))
       else if key_is ''time'' k then
         (case store_string ''Tick.time'' v (Time t) of
            (x, e) \<Rightarrow> (t\<lparr>Time := x\<rparr>, keep saved e))
       else if key_is ''type'' k then
         (case store_string ''Tick.type'' v (Type t) of
            (x, e) \<Rightarrow> (t\<lparr>Type := x\<rparr>, keep saved e))
       else (t, saved))"

text \<open>
  \<open>json.Unmarshal(line, tick)\<close>: the error, or the Tick as the decode leaves it. The
  loop returns on an error without reading the Tick again, so the fields of a Tick
  whose decode failed are not part of the result.
\<close>

definition Unmarshal_Tick :: "stdlib \<Rightarrow> line \<Rightarrow> Tick \<Rightarrow> error + Tick" where
  "Unmarshal_Tick L data t =
    (case data of
       Malformed \<Rightarrow> Inl SyntaxError
     | Doc (JObject ms) \<Rightarrow>
         (case foldl (Tick_member L) (t, None) ms of
            (t', None) \<Rightarrow> Inr t'
          | (t', Some e) \<Rightarrow> Inl e)
     | Doc JNull \<Rightarrow> Inr t
     | Doc v \<Rightarrow> Inl (UnmarshalTypeError (kind v) ''Tick''))"

section \<open>Transaction\<close>

text \<open>
  The fields of the struct in its order; a field \<open>F\<close> of the source is \<open>txF\<close> here,
  since Tick and Quote have fields of the same names.
\<close>

record Transaction =
  txId :: string
  txTime :: Time
  txUserId :: "64 word"
  txAccountID :: string
  txBatchId :: string
  txRequestId :: string
  txType :: string
  txOrderId :: string
  txClientOrderId :: string
  txInstrument :: string
  txUnits :: string
  txHomeConversionFactors :: string
  txPrice :: string
  txFullVWAP :: string
  txFullPrice :: string
  txReason :: string
  txPl :: string
  txQuotePl :: string
  txFinancing :: string
  txBaseFinancing :: string
  txQuoteFinancing :: string
  txCommission :: string
  txGuaranteedExecutionFee :: string
  txQuoteGuaranteedExecutionFee :: string
  txAccountBalance :: string
  txTradeOpened :: string
  txTradeClosed :: string
  txTradeReduced :: string
  txHalfSpreadCost :: string

definition zeroTransaction :: Transaction where
  "zeroTransaction = \<lparr>
    txId = [], txTime = zeroTime, txUserId = 0, txAccountID = [], txBatchId = [],
     txRequestId = [], txType = [], txOrderId = [], txClientOrderId = [],
     txInstrument = [], txUnits = [], txHomeConversionFactors = [], txPrice = [],
     txFullVWAP = [], txFullPrice = [], txReason = [], txPl = [], txQuotePl = [],
     txFinancing = [], txBaseFinancing = [], txQuoteFinancing = [], txCommission = [],
     txGuaranteedExecutionFee = [], txQuoteGuaranteedExecutionFee = [],
     txAccountBalance = [], txTradeOpened = [], txTradeClosed = [],
     txTradeReduced = [], txHalfSpreadCost = []\<rparr>"

definition IsOrderFill :: "Transaction \<Rightarrow> bool" where
  "IsOrderFill t = (''ORDER_FILL'' = txType t)"

definition IsMarketOrderTradeClose :: "Transaction \<Rightarrow> bool" where
  "IsMarketOrderTradeClose t = (''MARKET_ORDER_TRADE_CLOSE'' = txReason t)"

definition IsTakeProfitOrder :: "Transaction \<Rightarrow> bool" where
  "IsTakeProfitOrder t = (''TAKE_PROFIT_ORDER'' = txReason t)"

text \<open>The string fields with their tags.\<close>

definition string_fields ::
  "(string \<times> (Transaction \<Rightarrow> string) \<times> (string \<Rightarrow> Transaction \<Rightarrow> Transaction)) list" where
  "string_fields =
    [(''id'', txId, \<lambda>x t. t\<lparr>txId := x\<rparr>),
     (''accountID'', txAccountID, \<lambda>x t. t\<lparr>txAccountID := x\<rparr>),
     (''batchID'', txBatchId, \<lambda>x t. t\<lparr>txBatchId := x\<rparr>),
     (''requestID'', txRequestId, \<lambda>x t. t\<lparr>txRequestId := x\<rparr>),
     (''type'', txType, \<lambda>x t. t\<lparr>txType := x\<rparr>),
     (''orderID'', txOrderId, \<lambda>x t. t\<lparr>txOrderId := x\<rparr>),
     (''clientOrderID'', txClientOrderId, \<lambda>x t. t\<lparr>txClientOrderId := x\<rparr>),
     (''instrument'', txInstrument, \<lambda>x t. t\<lparr>txInstrument := x\<rparr>),
     (''units'', txUnits, \<lambda>x t. t\<lparr>txUnits := x\<rparr>),
     (''homeConversionFactors'', txHomeConversionFactors, \<lambda>x t. t\<lparr>txHomeConversionFactors := x\<rparr>),
     (''price'', txPrice, \<lambda>x t. t\<lparr>txPrice := x\<rparr>),
     (''fullVWAP'', txFullVWAP, \<lambda>x t. t\<lparr>txFullVWAP := x\<rparr>),
     (''fullPrice'', txFullPrice, \<lambda>x t. t\<lparr>txFullPrice := x\<rparr>),
     (''reason'', txReason, \<lambda>x t. t\<lparr>txReason := x\<rparr>),
     (''pl'', txPl, \<lambda>x t. t\<lparr>txPl := x\<rparr>),
     (''quotePL'', txQuotePl, \<lambda>x t. t\<lparr>txQuotePl := x\<rparr>),
     (''financing'', txFinancing, \<lambda>x t. t\<lparr>txFinancing := x\<rparr>),
     (''baseFinancing'', txBaseFinancing, \<lambda>x t. t\<lparr>txBaseFinancing := x\<rparr>),
     (''quoteFinancing'', txQuoteFinancing, \<lambda>x t. t\<lparr>txQuoteFinancing := x\<rparr>),
     (''commission'', txCommission, \<lambda>x t. t\<lparr>txCommission := x\<rparr>),
     (''guaranteedExecutionFee'', txGuaranteedExecutionFee, \<lambda>x t. t\<lparr>txGuaranteedExecutionFee := x\<rparr>),
     (''quoteGuaranteedExecutionFee'', txQuoteGuaranteedExecutionFee, \<lambda>x t. t\<lparr>txQuoteGuaranteedExecutionFee := x\<rparr>),
     (''accountBalance'', txAccountBalance, \<lambda>x t. t\<lparr>txAccountBalance := x\<rparr>),
     (''tradeOpened'', txTradeOpened, \<lambda>x t. t\<lparr>txTradeOpened := x\<rparr>),
     (''tradeClosed'', txTradeClosed, \<lambda>x t. t\<lparr>txTradeClosed := x\<rparr>),
     (''tradeReduced'', txTradeReduced, \<lambda>x t. t\<lparr>txTradeReduced := x\<rparr>),
     (''halfSpreadCost'', txHalfSpreadCost, \<lambda>x t. t\<lparr>txHalfSpreadCost := x\<rparr>)]"

text \<open>
  \<open>UserId\<close> is an \<open>int\<close>: a number is stored when \<open>strconv.ParseInt(s, 10, 64)\<close>
  takes its literal, a sign and digits within the range of 64 bits.
\<close>

definition digit :: "char \<Rightarrow> nat option" where
  "digit c = map_of (zip ''0123456789'' [0, 1, 2, 3, 4, 5, 6, 7, 8, 9]) c"

fun digits :: "string \<Rightarrow> nat \<Rightarrow> nat option" where
  "digits [] acc = Some acc"
| "digits (c # cs) acc =
    (case digit c of None \<Rightarrow> None | Some d \<Rightarrow> digits cs (10 * acc + d))"

definition number :: "string \<Rightarrow> nat option" where
  "number s = (if s = [] then None else digits s 0)"

definition ParseInt :: "string \<Rightarrow> int option" where
  "ParseInt s =
    (case (if take 1 s = ''-'' then map_option (\<lambda>n. - int n) (number (drop 1 s))
           else if take 1 s = ''+'' then map_option int (number (drop 1 s))
           else map_option int (number s)) of
       None \<Rightarrow> None
     | Some n \<Rightarrow> if - (2 ^ 63) \<le> n \<and> n < 2 ^ 63 then Some n else None)"

definition store_int :: "string \<Rightarrow> json \<Rightarrow> 64 word \<Rightarrow> 64 word \<times> error option" where
  "store_int field v old =
    (case v of
       JNumber s \<Rightarrow>
         (case ParseInt s of
            Some n \<Rightarrow> (word_of_int n, None)
          | None \<Rightarrow> (old, Some (UnmarshalTypeError (''number '' @ s) field)))
     | JNull \<Rightarrow> (old, None)
     | _ \<Rightarrow> (old, Some (UnmarshalTypeError (kind v) field)))"

text \<open>
  \<open>Time\<close> is a \<open>time.Time\<close>, which decodes itself: the decoder hands the value to its
  \<open>UnmarshalJSON\<close>, which ignores \<open>null\<close>, parses a string, and refuses anything else.
  An error of \<open>UnmarshalJSON\<close> is not saved: the decode stops there and returns it.
\<close>

definition Time_UnmarshalJSON :: "stdlib \<Rightarrow> json \<Rightarrow> Time \<Rightarrow> error + Time" where
  "Time_UnmarshalJSON L v old =
    (case v of
       JNull \<Rightarrow> Inr old
     | JString s \<Rightarrow> Time_UnmarshalText L s
     | _ \<Rightarrow> Inl (ErrOther ''Time.UnmarshalJSON: input is not a JSON string''))"

definition Transaction_member ::
  "stdlib \<Rightarrow> Transaction \<times> error option \<Rightarrow> string \<times> json \<Rightarrow> error + Transaction \<times> error option" where
  "Transaction_member L acc m =
    (case (acc, m) of ((t, saved), (k, v)) \<Rightarrow>
       if key_is ''time'' k then
         (case Time_UnmarshalJSON L v (txTime t) of
            Inl err \<Rightarrow> Inl err
          | Inr x \<Rightarrow> Inr (t\<lparr>txTime := x\<rparr>, saved))
       else if key_is ''userID'' k then
         (case store_int ''Transaction.userID'' v (txUserId t) of
            (x, e) \<Rightarrow> Inr (t\<lparr>txUserId := x\<rparr>, keep saved e))
       else
         (case find (\<lambda>fld. key_is (fst fld) k) string_fields of
            Some (tag, getter, setter) \<Rightarrow>
              (case store_string (''Transaction.'' @ tag) v (getter t) of
                 (x, e) \<Rightarrow> Inr (setter x t, keep saved e))
          | None \<Rightarrow> Inr (t, saved)))"

fun Transaction_members ::
  "stdlib \<Rightarrow> (string \<times> json) list \<Rightarrow> Transaction \<times> error option \<Rightarrow> error + Transaction \<times> error option" where
  "Transaction_members L [] acc = Inr acc"
| "Transaction_members L (m # ms) acc =
    (case Transaction_member L acc m of
       Inl err \<Rightarrow> Inl err
     | Inr acc' \<Rightarrow> Transaction_members L ms acc')"

definition Unmarshal_Transaction :: "stdlib \<Rightarrow> line \<Rightarrow> Transaction \<Rightarrow> error + Transaction" where
  "Unmarshal_Transaction L data t =
    (case data of
       Malformed \<Rightarrow> Inl SyntaxError
     | Doc (JObject ms) \<Rightarrow>
         (case Transaction_members L ms (t, None) of
            Inl err \<Rightarrow> Inl err
          | Inr (t', None) \<Rightarrow> Inr t'
          | Inr (t', Some e) \<Rightarrow> Inl e)
     | Doc JNull \<Rightarrow> Inr t
     | Doc v \<Rightarrow> Inl (UnmarshalTypeError (kind v) ''Transaction''))"

section \<open>Client\<close>

record Client =
  account :: string
  token :: string
  currencies :: string
  client_type :: string

text \<open>
  \<open>fmt.Sprintf\<close> with string operands. The templates of the client hold no verb but
  \<open>%s\<close>, and no other verb is modelled (\<open>%%\<close> prints a percent sign): an operand too
  few prints \<open>%!s(MISSING)\<close>, operands left over are listed after \<open>%!(EXTRA\<close>.
\<close>

fun extra :: "string list \<Rightarrow> string" where
  "extra [] = []"
| "extra [a] = ''string='' @ a"
| "extra (a # b # as) = ''string='' @ a @ '', '' @ extra (b # as)"

fun Sprintf :: "string \<Rightarrow> string list \<Rightarrow> string" where
  "Sprintf [] [] = []"
| "Sprintf [] (a # as) = ''%!(EXTRA '' @ extra (a # as) @ '')''"
| "Sprintf [c] as = (if c = CHR ''%'' then ''%!(NOVERB)'' @ Sprintf [] as else c # Sprintf [] as)"
| "Sprintf (c # v # cs) as =
    (if c = CHR ''%'' \<and> v = CHR ''s'' then
       (case as of
          [] \<Rightarrow> ''%!s(MISSING)'' @ Sprintf cs []
        | a # rest \<Rightarrow> a @ Sprintf cs rest)
     else if c = CHR ''%'' \<and> v = CHR ''%'' then CHR ''%'' # Sprintf cs as
     else c # Sprintf (v # cs) as)"

text \<open>
  \<open>baseUrl\<close> is a variable of the package: the constructors take its value and return
  the value they leave in it, next to the client. \<open>url\<close> reads it.
\<close>

definition New :: "string \<Rightarrow> string \<Rightarrow> string \<Rightarrow> bool \<Rightarrow> string \<Rightarrow> Client \<times> string" where
  "New acc tok cur live baseUrl =
    (\<lparr>account = acc, token = tok, currencies = cur, client_type = ''PRICE''\<rparr>,
     if live then ''https://stream-fxtrade.oanda.com/v3/accounts/%s/pricing/stream?instruments=%s''
     else ''https://stream-fxpractice.oanda.com/v3/accounts/%s/pricing/stream?instruments=%s'')"

definition NewTransaction :: "string \<Rightarrow> string \<Rightarrow> bool \<Rightarrow> string \<Rightarrow> Client \<times> string" where
  "NewTransaction acc tok live baseUrl =
    (\<lparr>account = acc, token = tok, currencies = [], client_type = ''TRANSACTION''\<rparr>,
     if live then ''https://api-fxtrade.oanda.com/v3/accounts/%s/transactions/stream''
     else ''https://api-fxpractice.oanda.com/v3/accounts/%s/transactions/stream'')"

definition url :: "string \<Rightarrow> Client \<Rightarrow> string" where
  "url baseUrl c = Sprintf baseUrl [account c, currencies c]"

text \<open>A program's constructions, in their order, each run on the variable the last left.\<close>

datatype construction =
    CallNew string string string bool
  | CallNewTransaction string string bool

fun perform :: "construction \<Rightarrow> string \<Rightarrow> Client \<times> string" where
  "perform (CallNew acc tok cur live) baseUrl = New acc tok cur live baseUrl"
| "perform (CallNewTransaction acc tok live) baseUrl = NewTransaction acc tok live baseUrl"

fun constructions :: "construction list \<Rightarrow> string \<Rightarrow> Client list \<times> string" where
  "constructions [] baseUrl = ([], baseUrl)"
| "constructions (k # ks) baseUrl =
    (case perform k baseUrl of
       (c, baseUrl') \<Rightarrow>
         (case constructions ks baseUrl' of (cs, baseUrl'') \<Rightarrow> (c # cs, baseUrl'')))"

section \<open>The run loops\<close>

text \<open>
  \<open>Run\<close> and \<open>RunTransactions\<close> end in the same loop, over a Tick and over a
  Transaction. The state at the head of the loop: the record that every line is decoded
  into, what the handler owns, and the number of lines read so far. The handler gets a
  pointer to the record, so it returns the record as it leaves it. \<open>calls\<close> is not in the
  source: it lists the calls of the handler, each with the number of its line (from 0)
  and the record passed.
\<close>

record ('r, 's) loop_state =
  target :: 'r
  hstate :: 's
  reads :: nat
  calls :: "(nat \<times> 'r) list"

definition iteration ::
  "(line \<Rightarrow> 'r \<Rightarrow> error + 'r) \<Rightarrow> ('r \<Rightarrow> bool) \<Rightarrow> ('r \<Rightarrow> 's \<Rightarrow> 'r \<times> 's) \<Rightarrow> Body \<Rightarrow>
   ('r, 's) loop_state \<Rightarrow> error + ('r, 's) loop_state" where
  "iteration decode accept f body st =
    (case body (reads st) of
       ReadErr err \<Rightarrow> Inl (errorString ''reader.ReadBytes:'' err)
     | ReadOK data \<Rightarrow>
         (case decode data (target st) of
            Inl err \<Rightarrow> Inl (errorString ''json.Unmarshal:'' err)
          | Inr r \<Rightarrow>
              if accept r then
                (case f r (hstate st) of
                   (r', s') \<Rightarrow>
                     Inr \<lparr>target = r', hstate = s', reads = Suc (reads st),
                          calls = calls st @ [(reads st, r)]\<rparr>)
              else Inr (st\<lparr>target := r, reads := Suc (reads st)\<rparr>)))"

text \<open>
  The loop has no exit but its two \<open>return\<close>s, and runs for ever on a body that never
  fails. \<open>stream_loop n\<close> runs at most \<open>n\<close> iterations: \<open>Returned e st\<close> when the
  function returned \<open>e\<close> within them, from the state \<open>st\<close>, and \<open>Running st\<close> when it
  is at the head of the loop in state \<open>st\<close> after \<open>n\<close> iterations.
\<close>

datatype ('r, 's) run = Returned "error option" "('r, 's) loop_state" | Running "('r, 's) loop_state"

fun stream_loop ::
  "nat \<Rightarrow> (line \<Rightarrow> 'r \<Rightarrow> error + 'r) \<Rightarrow> ('r \<Rightarrow> bool) \<Rightarrow> ('r \<Rightarrow> 's \<Rightarrow> 'r \<times> 's) \<Rightarrow> Body \<Rightarrow>
   ('r, 's) loop_state \<Rightarrow> ('r, 's) run" where
  "stream_loop 0 decode accept f body st = Running st"
| "stream_loop (Suc n) decode accept f body st =
    (case iteration decode accept f body st of
       Inl err \<Rightarrow> Returned (Some err) st
     | Inr st' \<Rightarrow> stream_loop n decode accept f body st')"

text \<open>
  Both functions build the same request: a GET of the URL with the bearer token set.
  \<open>connects L u c body\<close>: the request for \<open>u\<close> is built and answered, with \<open>body\<close>.
\<close>

definition bearer_request :: "string \<Rightarrow> Client \<Rightarrow> Request" where
  "bearer_request u c =
    Header_Set \<lparr>Method = ''GET'', URL = u, Header = []\<rparr> ''Authorization'' (''Bearer '' @ token c)"

definition connects :: "stdlib \<Rightarrow> string \<Rightarrow> Client \<Rightarrow> Body \<Rightarrow> bool" where
  "connects L u c body =
    (http_NewRequest L ''GET'' u = None \<and> http_Do L (bearer_request u c) = Inr body)"

definition Run ::
  "nat \<Rightarrow> stdlib \<Rightarrow> string \<Rightarrow> Client \<Rightarrow> (Tick \<Rightarrow> 's \<Rightarrow> Tick \<times> 's) \<Rightarrow> 's \<Rightarrow> (Tick, 's) run" where
  "Run n L baseUrl c f s =
    (let st = \<lparr>target = zeroTick, hstate = s, reads = 0, calls = []\<rparr> in
     case http_NewRequest L ''GET'' (url baseUrl c) of
       Some err \<Rightarrow> Returned (Some (errorString ''http.NewRequest:'' err)) st
     | None \<Rightarrow>
         (case http_Do L (bearer_request (url baseUrl c) c) of
            Inl err \<Rightarrow> Returned (Some (errorString ''http.Get:'' err)) st
          | Inr body \<Rightarrow> stream_loop n (Unmarshal_Tick L) IsTradeable f body st))"

text \<open>The filter of \<open>RunTransactions\<close>, the condition of its \<open>if\<close>.\<close>

definition forwarded :: "Transaction \<Rightarrow> bool" where
  "forwarded t = (IsOrderFill t \<and> (IsMarketOrderTradeClose t \<or> IsTakeProfitOrder t))"

definition RunTransactions ::
  "nat \<Rightarrow> stdlib \<Rightarrow> string \<Rightarrow> Client \<Rightarrow> (Transaction \<Rightarrow> 's \<Rightarrow> Transaction \<times> 's) \<Rightarrow> 's \<Rightarrow>
   (Transaction, 's) run" where
  "RunTransactions n L baseUrl c f s =
    (let st = \<lparr>target = zeroTransaction, hstate = s, reads = 0, calls = []\<rparr>;
         url = Sprintf baseUrl [account c] in
     case http_NewRequest L ''GET'' url of
       Some err \<Rightarrow>
         Returned (Some (errorString (''http.NewRequest: url: '' @ url @ '', error: '') err)) st
     | None \<Rightarrow>
         (case http_Do L (bearer_request url c) of
            Inl err \<Rightarrow> Returned (Some (errorString ''http.Get:'' err)) st
          | Inr body \<Rightarrow> stream_loop n (Unmarshal_Transaction L) forwarded f body st))"

fun state_of :: "('r, 's) run \<Rightarrow> ('r, 's) loop_state" where
  "state_of (Returned e st) = st"
| "state_of (Running st) = st"

section \<open>An instance of the library, for the examples\<close>

text \<open>
  The theorems below hold for every library. Their examples run on this one, which
  covers the texts the examples use. \<open>decimal\<close> reads a sign, digits and a fraction and
  returns the number exactly; on the examples' prices (integers, halves and
  quarters) that is the \<open>float64\<close> of \<open>strconv.ParseFloat\<close>. \<open>rfc3339\<close> reads
  \<open>YYYY-MM-DDTHH:MM:SS\<close>, an optional fraction of up to nine digits and a zone \<open>Z\<close>
  or \<open>+hh:mm\<close>, \<open>-hh:mm\<close>, checks the ranges of the fields, and counts seconds from
  January 1 of year 1 in the proleptic Gregorian calendar, as \<open>time.Parse\<close> does.
\<close>

definition decimal :: "string \<Rightarrow> float64 \<times> error option" where
  "decimal s =
    (let neg = (take 1 s = ''-'');
         body = (if take 1 s = ''-'' \<or> take 1 s = ''+'' then drop 1 s else s);
         ip = takeWhile (\<lambda>c. c \<noteq> CHR ''.'') body;
         fp = drop (Suc (length ip)) body
     in case number (ip @ fp) of
          None \<Rightarrow> (Finite 0, Some (NumError s))
        | Some n \<Rightarrow>
            (Finite ((if neg then - 1 else 1) * of_nat n / 10 ^ length fp), None))"

definition leap :: "int \<Rightarrow> bool" where
  "leap y = (y mod 4 = 0 \<and> (y mod 100 \<noteq> 0 \<or> y mod 400 = 0))"

definition days_in :: "int \<Rightarrow> nat \<Rightarrow> nat" where
  "days_in y m =
    (if m = 2 \<and> leap y then 29 else [31, 28, 31, 30, 31, 30, 31, 31, 30, 31, 30, 31] ! (m - 1))"

definition days_before :: "int \<Rightarrow> nat \<Rightarrow> int" where
  "days_before y m =
    365 * (y - 1) + (y - 1) div 4 - (y - 1) div 100 + (y - 1) div 400
    + int (sum_list (map (days_in y) [1..<m]))"

definition zone :: "string \<Rightarrow> int option" where
  "zone z =
    (if z = ''Z'' then Some 0
     else if length z = 6 \<and> (z ! 0 = CHR ''+'' \<or> z ! 0 = CHR ''-'') \<and> z ! 3 = CHR '':'' then
       (case (number (take 2 (drop 1 z)), number (drop 4 z)) of
          (Some h, Some m) \<Rightarrow>
            if h < 24 \<and> m < 60 then
              Some ((if z ! 0 = CHR ''-'' then - 1 else 1) * (int h * 3600 + int m * 60))
            else None
        | _ \<Rightarrow> None)
     else None)"

definition fraction :: "string \<Rightarrow> (int \<times> string) option" where
  "fraction r =
    (if take 1 r = ''.'' then
       (let ds = takeWhile (\<lambda>c. digit c \<noteq> None) (drop 1 r) in
        case number (take 9 (ds @ ''000000000'')) of
          Some n \<Rightarrow> if ds = [] then None else Some (int n, drop (Suc (length ds)) r)
        | None \<Rightarrow> None)
     else Some (0, r))"

definition rfc3339_fields :: "string \<Rightarrow> Time option" where
  "rfc3339_fields s =
    (if length s < 20 \<or> s ! 4 \<noteq> CHR ''-'' \<or> s ! 7 \<noteq> CHR ''-'' \<or> s ! 10 \<noteq> CHR ''T''
        \<or> s ! 13 \<noteq> CHR '':'' \<or> s ! 16 \<noteq> CHR '':'' then None
     else
       (case (number (take 4 s), number (take 2 (drop 5 s)), number (take 2 (drop 8 s)),
              number (take 2 (drop 11 s)), number (take 2 (drop 14 s)),
              number (take 2 (drop 17 s)), fraction (drop 19 s)) of
          (Some y, Some mo, Some d, Some h, Some mi, Some se, Some (ns, z)) \<Rightarrow>
            (case zone z of
               Some off \<Rightarrow>
                 if 1 \<le> mo \<and> mo \<le> 12 \<and> 1 \<le> d \<and> d \<le> days_in (int y) mo
                    \<and> h < 24 \<and> mi < 60 \<and> se < 60 then
                   Some \<lparr>sec = (days_before (int y) mo + int d - 1) * 86400
                               + int h * 3600 + int mi * 60 + int se - off,
                         nsec = ns, offset = off\<rparr>
                 else None
             | None \<Rightarrow> None)
        | _ \<Rightarrow> None))"

definition rfc3339 :: "string \<Rightarrow> Time \<times> error option" where
  "rfc3339 s =
    (case rfc3339_fields s of
       Some t \<Rightarrow> (t, None)
     | None \<Rightarrow> (zeroTime, Some (ParseError s)))"

definition golib :: "Body \<Rightarrow> stdlib" where
  "golib body =
    \<lparr>ParseFloat = decimal,
     time_Parse = rfc3339,
     Time_UnmarshalText = (\<lambda>s. case rfc3339 s of (t, None) \<Rightarrow> Inr t | (t, Some err) \<Rightarrow> Inl err),
     http_NewRequest = (\<lambda>m u. None),
     http_Do = (\<lambda>req. Inr body)\<rparr>"

text \<open>A body of finitely many lines, each ending in a newline, and then the end of the stream.\<close>

definition lines :: "line list \<Rightarrow> Body" where
  "lines ls = (\<lambda>i. if i < length ls then ReadOK (ls ! i) else ReadErr EOF)"

section \<open>Notions the properties are stated with\<close>

text \<open>
  The prices of a list of quotes as \<open>ParseFloat\<close> reads them; a least element of a list
  of floats; the part of a list after its last zero; and a list with nothing below zero.
\<close>

definition prices :: "stdlib \<Rightarrow> Quote list \<Rightarrow> float64 list" where
  "prices L qs = map (\<lambda>q. fst (ParseFloat L (Price q))) qs"

definition least :: "float64 list \<Rightarrow> float64 \<Rightarrow> bool" where
  "least vs b = (b \<in> set vs \<and> (\<forall>v\<in>set vs. \<not> flt v b))"

definition after_last_zero :: "float64 list \<Rightarrow> float64 list" where
  "after_last_zero vs = rev (takeWhile (\<lambda>v. v \<noteq> Finite 0) (rev vs))"

definition ask_step :: "float64 \<Rightarrow> float64 \<Rightarrow> float64" where
  "ask_step best val = (if feq (Finite 0) best then val else if flt val best then val else best)"

definition nonneg :: "float64 list \<Rightarrow> bool" where
  "nonneg vs = (\<forall>v\<in>set vs. \<not> flt v (Finite 0))"

definition ask_spec :: "float64 list \<Rightarrow> float64 \<Rightarrow> bool" where
  "ask_spec vs b =
    (if nonneg vs \<and> after_last_zero vs \<noteq> [] then least (after_last_zero vs) b else least vs b)"

text \<open>A greatest element of a list of floats, and the step of the loop of \<open>BestBid\<close>.\<close>

definition greatest :: "float64 list \<Rightarrow> float64 \<Rightarrow> bool" where
  "greatest vs b = (b \<in> set vs \<and> (\<forall>v\<in>set vs. \<not> flt b v))"

definition bid_step :: "float64 \<Rightarrow> float64 \<Rightarrow> float64" where
  "bid_step best val = (if fgt val best then val else best)"

text \<open>Asks for the examples: the second price is zero.\<close>

definition example_asks :: "Quote list" where
  "example_asks =
    [\<lparr>Liquidity = Finite 10000000, Price = ''117.5''\<rparr>,
     \<lparr>Liquidity = Finite 10000000, Price = ''0''\<rparr>,
     \<lparr>Liquidity = Finite 10000000, Price = ''117.25''\<rparr>,
     \<lparr>Liquidity = Finite 10000000, Price = ''118''\<rparr>]"

text \<open>
  A value of the key \<open>time\<close> that \<open>UnmarshalJSON\<close> of \<open>time.Time\<close> refuses: anything
  but \<open>null\<close> and a string it can parse.
\<close>

definition bad_time :: "stdlib \<Rightarrow> json \<Rightarrow> bool" where
  "bad_time L v =
    (case v of
       JNull \<Rightarrow> False
     | JString s \<Rightarrow> isl (Time_UnmarshalText L s)
     | _ \<Rightarrow> True)"

text \<open>
  Lines for the examples: a price as in the comment of the source (with prices that are
  exact in binary), a heartbeat, and the Tick that the price decodes to.
\<close>

definition price_line :: line where
  "price_line =
    Doc (JObject
      [(''type'', JString ''PRICE''),
       (''time'', JString ''2016-12-20T05:55:35.676011610Z''),
       (''bids'', JArray [JObject [(''price'', JString ''117.25''), (''liquidity'', JNumber ''10000000'')]]),
       (''asks'', JArray [JObject [(''price'', JString ''117.5''), (''liquidity'', JNumber ''10000000'')]]),
       (''closeoutBid'', JString ''117.25''),
       (''closeoutAsk'', JString ''117.5''),
       (''status'', JString ''tradeable''),
       (''instrument'', JString ''USD_JPY'')])"

definition heartbeat_line :: line where
  "heartbeat_line =
    Doc (JObject [(''type'', JString ''HEARTBEAT''), (''time'', JString ''2016-12-20T05:55:46.064294036Z'')])"

definition price_tick :: Tick where
  "price_tick =
    \<lparr>Asks = [\<lparr>Liquidity = Finite 10000000, Price = ''117.5''\<rparr>],
     Bids = [\<lparr>Liquidity = Finite 10000000, Price = ''117.25''\<rparr>],
     CloseoutAsk = ''117.5'', CloseoutBid = ''117.25'', Instrument = ''USD_JPY'',
     Status = ''tradeable'', Time = ''2016-12-20T05:55:35.676011610Z'', Type = ''PRICE'',
     parsedTime = zeroTime\<rparr>"

text \<open>A transaction line with a type, a reason and a time, and no other key.\<close>

definition transaction_line :: "string \<Rightarrow> string \<Rightarrow> json \<Rightarrow> line" where
  "transaction_line typ reason tm =
    Doc (JObject [(''type'', JString typ), (''reason'', JString reason), (''time'', tm)])"


definition example_client :: Client where
  "example_client = \<lparr>account = ''101'', token = ''secret'', currencies = ''USD_JPY'', client_type = ''PRICE''\<rparr>"


section \<open>Properties of the accessors\<close>

subsection \<open>Order of floats\<close>

lemma flt_irrefl [simp]: "\<not> flt a a"
  by (cases a) auto

lemma flt_trans: "flt a b \<Longrightarrow> flt b c \<Longrightarrow> flt a c"
  by (cases a; cases b; cases c) auto

lemma flt_asym: "flt a b \<Longrightarrow> \<not> flt b a"
  by (cases a; cases b) auto

lemma flt_total: "a \<noteq> NaN \<Longrightarrow> b \<noteq> NaN \<Longrightarrow> flt a b \<or> a = b \<or> flt b a"
  by (cases a; cases b) auto

lemma feq_zero: "feq (Finite 0) b = (b = Finite 0)"
  by (cases b) auto

lemma ask_loop_fold:
  "\<forall>q\<in>set qs. \<exists>v. ParseFloat L (Price q) = (v, None) \<and> v \<noteq> NaN \<Longrightarrow>
   ask_loop L qs best = (foldl ask_step best (prices L qs), None)"
  by (induction qs arbitrary: best) (auto simp: prices_def PriceAsFloat_def ask_step_def)

lemma after_last_zero_snoc:
  "after_last_zero (vs @ [x]) = (if x = Finite 0 then [] else after_last_zero vs @ [x])"
  by (simp add: after_last_zero_def)

lemma after_last_zero_subset: "set (after_last_zero vs) \<subseteq> set vs"
  unfolding after_last_zero_def by (metis set_rev set_takeWhileD subsetI)

lemma after_last_zero_nonzero: "v \<in> set (after_last_zero vs) \<Longrightarrow> v \<noteq> Finite 0"
  unfolding after_last_zero_def by (metis set_rev set_takeWhileD)

lemma least_snoc:
  "least vs b \<Longrightarrow> least (vs @ [x]) (if flt x b then x else b)"
  unfolding least_def by (auto dest: flt_trans)

lemma least_single: "least [x] x"
  by (simp add: least_def)

lemma least_below:
  "nonneg vs \<Longrightarrow> flt x (Finite 0) \<Longrightarrow> least (vs @ [x]) x"
  unfolding least_def nonneg_def by (auto dest: flt_trans)

lemma least_zero: "nonneg vs \<Longrightarrow> least (vs @ [Finite 0]) (Finite 0)"
  unfolding least_def nonneg_def by auto

lemma zero_is_last:
  "after_last_zero vs = [] \<Longrightarrow> vs \<noteq> [] \<Longrightarrow> Finite 0 \<in> set vs"
  unfolding after_last_zero_def by (cases vs rule: rev_cases) (auto split: if_splits)

lemma nonneg_snoc: "nonneg (vs @ [x]) = (nonneg vs \<and> \<not> flt x (Finite 0))"
  by (auto simp: nonneg_def)

lemma ask_step_unset: "ask_step (Finite 0) x = x"
  by (simp add: ask_step_def)

lemma ask_step_set: "b \<noteq> Finite 0 \<Longrightarrow> ask_step b x = (if flt x b then x else b)"
  by (simp add: ask_step_def feq_zero)

lemma ask_fold_spec:
  "\<forall>v\<in>set vs. v \<noteq> NaN \<Longrightarrow>
   (vs = [] \<longrightarrow> foldl ask_step (Finite 0) vs = Finite 0) \<and>
   (vs \<noteq> [] \<longrightarrow> ask_spec vs (foldl ask_step (Finite 0) vs))"
proof (induction vs rule: rev_induct)
  case Nil
  then show ?case by simp
next
  case (snoc x vs)
  define R where "R = foldl ask_step (Finite 0) vs"
  have nn: "\<forall>v\<in>set vs. v \<noteq> NaN" and xn: "x \<noteq> NaN" using snoc.prems by auto
  have IH1: "vs = [] \<Longrightarrow> R = Finite 0" and IH2: "vs \<noteq> [] \<Longrightarrow> ask_spec vs R"
    using snoc.IH nn by (auto simp: R_def)
  have step: "foldl ask_step (Finite 0) (vs @ [x]) = ask_step R x"
    by (simp add: R_def)
  consider (unset) "vs = []"
    | (segment) "vs \<noteq> []" "nonneg vs" "after_last_zero vs \<noteq> []"
    | (reset) "vs \<noteq> []" "nonneg vs" "after_last_zero vs = []"
    | (negative) "vs \<noteq> []" "\<not> nonneg vs"
    by blast
  then have "ask_spec (vs @ [x]) (ask_step R x)"
  proof cases
    case unset
    then have "ask_step R x = x" using IH1 by (simp add: ask_step_unset)
    then show ?thesis using unset
      by (simp add: ask_spec_def after_last_zero_snoc least_single after_last_zero_def)
  next
    case segment
    then have l: "least (after_last_zero vs) R" using IH2 by (simp add: ask_spec_def)
    then have Rin: "R \<in> set (after_last_zero vs)" by (simp add: least_def)
    then have R0: "R \<noteq> Finite 0" using after_last_zero_nonzero by blast
    have "R \<in> set vs" using Rin after_last_zero_subset by blast
    then have "R \<noteq> NaN" "\<not> flt R (Finite 0)" using nn segment(2) by (auto simp: nonneg_def)
    then have pos: "flt (Finite 0) R" using R0 flt_total [of R "Finite 0"] by auto
    have st: "ask_step R x = (if flt x R then x else R)" using R0 by (rule ask_step_set)
    show ?thesis
    proof (cases "x = Finite 0")
      case True
      then show ?thesis using st pos segment(2)
        by (simp add: ask_spec_def after_last_zero_snoc least_zero)
    next
      case False
      show ?thesis
      proof (cases "flt x (Finite 0)")
        case True
        then have "flt x R" using pos flt_trans by blast
        then show ?thesis using st True segment(2)
          by (simp add: ask_spec_def nonneg_snoc least_below)
      next
        case neg: False
        then show ?thesis using st False segment(2) l least_snoc [of "after_last_zero vs" R x]
          by (simp add: ask_spec_def nonneg_snoc after_last_zero_snoc)
      qed
    qed
  next
    case reset
    then have l: "least vs R" using IH2 by (simp add: ask_spec_def)
    have z: "Finite 0 \<in> set vs" using reset zero_is_last by blast
    have "R \<in> set vs" using l by (simp add: least_def)
    then have "R \<noteq> NaN" "\<not> flt R (Finite 0)" using nn reset(2) by (auto simp: nonneg_def)
    moreover have "\<not> flt (Finite 0) R" using l z by (auto simp: least_def)
    ultimately have "R = Finite 0" using flt_total [of R "Finite 0"] by auto
    then have st: "ask_step R x = x" by (simp add: ask_step_unset)
    show ?thesis
    proof (cases "x = Finite 0")
      case True
      then show ?thesis using st reset(2)
        by (simp add: ask_spec_def after_last_zero_snoc least_zero)
    next
      case False
      show ?thesis
      proof (cases "flt x (Finite 0)")
        case True
        then show ?thesis using st reset(2)
          by (simp add: ask_spec_def nonneg_snoc least_below)
      next
        case neg: False
        then show ?thesis using st False reset
          by (simp add: ask_spec_def nonneg_snoc after_last_zero_snoc least_single)
      qed
    qed
  next
    case negative
    then have l: "least vs R" using IH2 by (simp add: ask_spec_def)
    obtain w where w: "w \<in> set vs" "flt w (Finite 0)" using negative(2) by (auto simp: nonneg_def)
    have "R \<in> set vs" using l by (simp add: least_def)
    then have "R \<noteq> NaN" "w \<noteq> NaN" using nn w by auto
    moreover have "\<not> flt w R" using l w by (auto simp: least_def)
    ultimately have "flt R (Finite 0)" using w(2) flt_total [of R w] flt_trans by blast
    then have "R \<noteq> Finite 0" by auto
    then have st: "ask_step R x = (if flt x R then x else R)" by (rule ask_step_set)
    show ?thesis using st negative(2) l least_snoc [of vs R x]
      by (simp add: ask_spec_def nonneg_snoc)
  qed
  then show ?case using step by simp
qed


lemma after_last_zero_all: "Finite 0 \<notin> set vs \<Longrightarrow> after_last_zero vs = vs"
  unfolding after_last_zero_def
  by (metis (mono_tags, lifting) rev_rev_ident set_rev takeWhile_eq_all_conv)

lemma rfc3339_examples:
  "rfc3339 ''2016-12-20T05:55:46.064294036Z'' = (\<lparr>sec = 63617810146, nsec = 64294036, offset = 0\<rparr>, None)"
  "rfc3339 ''0001-01-01T00:00:00Z'' = (zeroTime, None)"
  "rfc3339 ''20 Dec 2016'' = (zeroTime, Some (ParseError ''20 Dec 2016''))"
  by (simp_all add: rfc3339_def rfc3339_fields_def number_def digit_def fraction_def zone_def
        days_before_def days_in_def leap_def upt_rec zeroTime_def)

subsection \<open>BestAsk and BestBid\<close>

text \<open>
  Claim C2. When \<open>asks\<close> is not empty and every price parses to a number, \<open>BestAsk\<close>
  returns no error and a price of the list: the least one when no price is zero, and in
  general the least of the prices after the last zero when no price is negative and the
  last price is not zero, and the least of all otherwise. So a zero that has become the
  running best is taken for "unset" and gives way to the price examined next.
\<close>

theorem BestAsk_minimum:
  assumes "Asks t \<noteq> []"
    and "\<forall>q\<in>set (Asks t). \<exists>v. ParseFloat L (Price q) = (v, None) \<and> v \<noteq> NaN"
  shows "\<exists>b. BestAsk L t = (b, None) \<and>
           (Finite 0 \<notin> set (prices L (Asks t)) \<longrightarrow> least (prices L (Asks t)) b) \<and>
           (if nonneg (prices L (Asks t)) \<and> after_last_zero (prices L (Asks t)) \<noteq> []
            then least (after_last_zero (prices L (Asks t))) b
            else least (prices L (Asks t)) b)"
proof -
  let ?vs = "prices L (Asks t)"
  let ?b = "foldl ask_step (Finite 0) ?vs"
  have run: "BestAsk L t = (?b, None)"
    using assms by (simp add: BestAsk_def ask_loop_fold)
  have "\<forall>v\<in>set ?vs. v \<noteq> NaN" using assms(2) by (auto simp: prices_def)
  moreover have "?vs \<noteq> []" using assms(1) by (simp add: prices_def)
  ultimately have spec: "ask_spec ?vs ?b" using ask_fold_spec [of ?vs] by blast
  have "least ?vs ?b" if "Finite 0 \<notin> set ?vs"
  proof -
    have "after_last_zero ?vs = ?vs" using that by (rule after_last_zero_all)
    then show ?thesis using spec by (simp add: ask_spec_def split: if_splits)
  qed
  then show ?thesis using run spec by (simp add: ask_spec_def)
qed

lemma decimal_examples:
  "decimal ''117.5'' = (Finite (235 / 2), None)"
  "decimal ''117.25'' = (Finite (469 / 4), None)"
  "decimal ''118'' = (Finite 118, None)"
  "decimal ''0'' = (Finite 0, None)"
  "decimal ''-1'' = (Finite (- 1), None)"
  by (simp_all add: decimal_def number_def digit_def)

theorem BestAsk_minimum_witness:
  "Asks (zeroTick\<lparr>Asks := example_asks\<rparr>) \<noteq> [] \<and>
   BestAsk (golib (lines [])) (zeroTick\<lparr>Asks := example_asks\<rparr>) = (Finite (469 / 4), None) \<and>
   least (after_last_zero (prices (golib (lines [])) example_asks)) (Finite (469 / 4))"
proof -
  let ?L = "golib (lines [])"
  let ?t = "zeroTick\<lparr>Asks := example_asks\<rparr>"
  have vs: "prices ?L example_asks = [Finite (235 / 2), Finite 0, Finite (469 / 4), Finite 118]"
    by (simp add: prices_def example_asks_def golib_def decimal_examples)
  have h1: "Asks ?t \<noteq> []" by (simp add: example_asks_def)
  have h2: "\<forall>q\<in>set (Asks ?t). \<exists>v. ParseFloat ?L (Price q) = (v, None) \<and> v \<noteq> NaN"
    by (simp add: example_asks_def golib_def decimal_examples)
  obtain b where b: "BestAsk ?L ?t = (b, None)"
    "if nonneg (prices ?L (Asks ?t)) \<and> after_last_zero (prices ?L (Asks ?t)) \<noteq> []
     then least (after_last_zero (prices ?L (Asks ?t))) b
     else least (prices ?L (Asks ?t)) b"
    using BestAsk_minimum [OF h1 h2] by blast
  have "least (after_last_zero (prices ?L example_asks)) b"
    using b(2) by (simp add: vs nonneg_def after_last_zero_def)
  moreover have "b = Finite (469 / 4)"
    using calculation by (auto simp: vs after_last_zero_def least_def)
  ultimately show ?thesis using b(1) h1 by simp
qed

text \<open>
  Claim C8. With no asks \<open>BestAsk\<close> returns 0 and no error; with no bids \<open>BestBid\<close> does.
\<close>

theorem best_of_nothing:
  "(Asks t = [] \<longrightarrow> BestAsk L t = (Finite 0, None)) \<and>
   (Bids t = [] \<longrightarrow> BestBid L t = (Finite 0, None))"
  by (simp add: BestAsk_def BestBid_def)

theorem best_of_nothing_witness:
  "Asks zeroTick = [] \<and> BestAsk (golib (lines [])) zeroTick = (Finite 0, None) \<and>
   Bids zeroTick = [] \<and> BestBid (golib (lines [])) zeroTick = (Finite 0, None)"
  using best_of_nothing [of zeroTick "golib (lines [])"] by (simp add: zeroTick_def)

text \<open>
  Claim C3. \<open>BestBid\<close> starts its running best at 0 and only ever raises it, so it
  returns 0 for a single bid of -1, whose greatest (and only) price is -1.
\<close>

theorem BestBid_of_negative_bids:
  "BestBid (golib (lines [])) (zeroTick\<lparr>Bids := [\<lparr>Liquidity = Finite 1, Price = ''-1''\<rparr>]\<rparr>)
     = (Finite 0, None) \<and>
   prices (golib (lines [])) [\<lparr>Liquidity = Finite 1, Price = ''-1''\<rparr>] = [Finite (- 1)]"
  by (simp add: BestBid_def PriceAsFloat_def golib_def decimal_examples fgt_def prices_def)


lemma bid_loop_fold:
  "\<forall>q\<in>set qs. \<exists>v. ParseFloat L (Price q) = (v, None) \<and> v \<noteq> NaN \<Longrightarrow>
   bid_loop L qs best = (foldl bid_step best (prices L qs), None)"
  by (induction qs arbitrary: best) (auto simp: prices_def PriceAsFloat_def bid_step_def)

lemma bid_fold_greatest:
  "best \<noteq> NaN \<Longrightarrow> \<forall>v\<in>set vs. v \<noteq> NaN \<Longrightarrow> greatest (best # vs) (foldl bid_step best vs)"
proof (induction vs arbitrary: best)
  case Nil
  then show ?case by (simp add: greatest_def)
next
  case (Cons x xs)
  define best' where "best' = bid_step best x"
  define R where "R = foldl bid_step best' xs"
  have b': "best' \<noteq> NaN" "best' = best \<or> best' = x" "\<not> flt best' best" "\<not> flt best' x"
    using Cons.prems by (auto simp: best'_def bid_step_def fgt_def dest: flt_asym)
  have g: "greatest (best' # xs) R" using Cons.IH [of best'] b'(1) Cons.prems(2) by (simp add: R_def)
  then have Rin: "R \<in> set (best' # xs)" and Rmax: "\<not> flt R best'" by (simp_all add: greatest_def)
  have Rn: "R \<noteq> NaN" using Rin b'(1) Cons.prems(2) by auto
  have above: "\<not> flt R v" if "\<not> flt best' v" for v
  proof
    assume "flt R v"
    moreover have "flt R best' \<or> R = best' \<or> flt best' R" using flt_total [OF Rn b'(1)] .
    ultimately show False using Rmax that flt_trans by blast
  qed
  have "R \<in> set (best # x # xs)" using Rin b'(2) by auto
  moreover have "\<forall>v\<in>set (best # x # xs). \<not> flt R v"
    using g above b'(3,4) by (auto simp: greatest_def)
  ultimately show ?case by (simp add: greatest_def R_def best'_def)
qed

text \<open>
  In general, for bids that all parse to numbers, \<open>BestBid\<close> returns the greatest of 0
  and the prices: the greatest price when one of them is not negative.
\<close>

theorem BestBid_floor:
  assumes "Bids t \<noteq> []"
    and "\<forall>q\<in>set (Bids t). \<exists>v. ParseFloat L (Price q) = (v, None) \<and> v \<noteq> NaN"
  shows "\<exists>b. BestBid L t = (b, None) \<and> greatest (Finite 0 # prices L (Bids t)) b"
proof -
  have "BestBid L t = (foldl bid_step (Finite 0) (prices L (Bids t)), None)"
    using assms by (simp add: BestBid_def bid_loop_fold)
  moreover have "\<forall>v\<in>set (prices L (Bids t)). v \<noteq> NaN" using assms(2) by (auto simp: prices_def)
  ultimately show ?thesis using bid_fold_greatest [of "Finite 0" "prices L (Bids t)"] by simp
qed

theorem BestBid_floor_witness:
  "Bids (zeroTick\<lparr>Bids := [\<lparr>Liquidity = Finite 1, Price = ''-1''\<rparr>]\<rparr>) \<noteq> [] \<and>
   (\<exists>b. BestBid (golib (lines [])) (zeroTick\<lparr>Bids := [\<lparr>Liquidity = Finite 1, Price = ''-1''\<rparr>]\<rparr>)
         = (b, None) \<and>
       greatest [Finite 0, Finite (- 1)] b)"
proof -
  let ?L = "golib (lines [])"
  let ?t = "zeroTick\<lparr>Bids := [\<lparr>Liquidity = Finite 1, Price = ''-1''\<rparr>]\<rparr>"
  have h1: "Bids ?t \<noteq> []" by simp
  have h2: "\<forall>q\<in>set (Bids ?t). \<exists>v. ParseFloat ?L (Price q) = (v, None) \<and> v \<noteq> NaN"
    by (simp add: golib_def decimal_examples)
  have "prices ?L (Bids ?t) = [Finite (- 1)]"
    by (simp add: prices_def golib_def decimal_examples)
  then show ?thesis using BestBid_floor [OF h1 h2] h1 by simp
qed

subsection \<open>parseTime\<close>

text \<open>
  Claim C9. When the cache is empty and the text does not parse, \<open>parseTime\<close> returns
  the error and leaves the Tick as it was, \<open>UnixTimestamp\<close> and \<open>Nanoseconds\<close> return 0
  with that error, and the next call parses whatever the text is by then.
\<close>

theorem parseTime_failure:
  assumes "IsZero (parsedTime t)" and "time_Parse L (Time t) = (z, Some err)"
  shows "parseTime L t = ((z, Some err), t) \<and>
         UnixTimestamp L t = ((0, Some err), t) \<and>
         Nanoseconds L t = ((0, Some err), t) \<and>
         (\<forall>s. fst (parseTime L ((snd (parseTime L t))\<lparr>Time := s\<rparr>)) = time_Parse L s)"
proof -
  have first: "parseTime L t = ((z, Some err), t)"
    using assms by (simp add: parseTime_def)
  have "fst (parseTime L (t\<lparr>Time := s\<rparr>)) = time_Parse L s" for s
    using assms(1) by (cases "time_Parse L s") (auto simp: parseTime_def split: option.splits)
  then show ?thesis using first by (simp add: UnixTimestamp_def Nanoseconds_def)
qed

theorem parseTime_failure_witness:
  "IsZero (parsedTime (zeroTick\<lparr>Time := ''20 Dec 2016''\<rparr>)) \<and>
   time_Parse (golib (lines [])) (Time (zeroTick\<lparr>Time := ''20 Dec 2016''\<rparr>))
     = (zeroTime, Some (ParseError ''20 Dec 2016'')) \<and>
   parseTime (golib (lines [])) (zeroTick\<lparr>Time := ''20 Dec 2016''\<rparr>)
     = ((zeroTime, Some (ParseError ''20 Dec 2016'')), zeroTick\<lparr>Time := ''20 Dec 2016''\<rparr>) \<and>
   UnixTimestamp (golib (lines [])) (zeroTick\<lparr>Time := ''20 Dec 2016''\<rparr>)
     = ((0, Some (ParseError ''20 Dec 2016'')), zeroTick\<lparr>Time := ''20 Dec 2016''\<rparr>) \<and>
   fst (parseTime (golib (lines []))
          ((snd (parseTime (golib (lines [])) (zeroTick\<lparr>Time := ''20 Dec 2016''\<rparr>)))
             \<lparr>Time := ''2016-12-20T05:55:46.064294036Z''\<rparr>))
     = (\<lparr>sec = 63617810146, nsec = 64294036, offset = 0\<rparr>, None)"
proof -
  let ?L = "golib (lines [])"
  let ?t = "zeroTick\<lparr>Time := ''20 Dec 2016''\<rparr>"
  have h1: "IsZero (parsedTime ?t)" by (simp add: zeroTick_def zeroTime_def IsZero_def)
  have h2: "time_Parse ?L (Time ?t) = (zeroTime, Some (ParseError ''20 Dec 2016''))"
    by (simp add: golib_def rfc3339_examples)
  have h3: "time_Parse ?L ''2016-12-20T05:55:46.064294036Z''
          = (\<lparr>sec = 63617810146, nsec = 64294036, offset = 0\<rparr>, None)"
    by (simp add: golib_def rfc3339_examples)
  have "fst (parseTime ?L ((snd (parseTime ?L ?t))\<lparr>Time := ''2016-12-20T05:55:46.064294036Z''\<rparr>))
          = time_Parse ?L ''2016-12-20T05:55:46.064294036Z''"
    using parseTime_failure [OF h1 h2] by blast
  then show ?thesis using parseTime_failure [OF h1 h2] h1 h2 h3 by simp
qed

text \<open>
  Claim C4, as the code has it. Once a call of \<open>parseTime\<close> has returned a time other
  than the zero instant without an error, every later call on that Tick returns the same
  time and no error and leaves the Tick as it is, whatever the text has become and
  whatever the parser would make of it.
\<close>

theorem parseTime_memo:
  assumes "parseTime L t = ((v, None), t')" and "\<not> IsZero v"
  shows "parseTime L' (t'\<lparr>Time := s\<rparr>) = ((v, None), t'\<lparr>Time := s\<rparr>)"
proof -
  have "parsedTime t' = v"
    using assms(1) by (auto simp: parseTime_def split: if_splits prod.splits option.splits)
  then show ?thesis using assms(2) by (simp add: parseTime_def)
qed

theorem parseTime_memo_witness:
  "parseTime (golib (lines [])) (zeroTick\<lparr>Time := ''2016-12-20T05:55:46.064294036Z''\<rparr>)
     = ((\<lparr>sec = 63617810146, nsec = 64294036, offset = 0\<rparr>, None),
        zeroTick\<lparr>Time := ''2016-12-20T05:55:46.064294036Z'',
                 parsedTime := \<lparr>sec = 63617810146, nsec = 64294036, offset = 0\<rparr>\<rparr>) \<and>
   \<not> IsZero \<lparr>sec = 63617810146, nsec = 64294036, offset = 0\<rparr> \<and>
   parseTime (golib (lines []))
     (zeroTick\<lparr>parsedTime := \<lparr>sec = 63617810146, nsec = 64294036, offset = 0\<rparr>,
              Time := ''20 Dec 2016''\<rparr>)
     = ((\<lparr>sec = 63617810146, nsec = 64294036, offset = 0\<rparr>, None),
        zeroTick\<lparr>parsedTime := \<lparr>sec = 63617810146, nsec = 64294036, offset = 0\<rparr>,
                 Time := ''20 Dec 2016''\<rparr>)"
proof -
  let ?L = "golib (lines [])"
  let ?v = "\<lparr>sec = 63617810146, nsec = 64294036, offset = 0\<rparr>"
  let ?t = "zeroTick\<lparr>Time := ''2016-12-20T05:55:46.064294036Z''\<rparr>"
  have h1: "parseTime ?L ?t = ((?v, None), ?t\<lparr>parsedTime := ?v\<rparr>)"
    by (simp add: parseTime_def golib_def rfc3339_examples zeroTick_def zeroTime_def IsZero_def)
  have h2: "\<not> IsZero ?v" by (simp add: IsZero_def)
  have "parseTime ?L ((?t\<lparr>parsedTime := ?v\<rparr>)\<lparr>Time := ''20 Dec 2016''\<rparr>)
          = ((?v, None), (?t\<lparr>parsedTime := ?v\<rparr>)\<lparr>Time := ''20 Dec 2016''\<rparr>)"
    using h1 h2 by (rule parseTime_memo)
  then show ?thesis using h1 h2 by simp
qed

text \<open>
  Claim C4 as stated fails. The text \<open>0001-01-01T00:00:00Z\<close> parses to the zero instant,
  which the cache takes for "empty": the second call parses again and fails on the text
  it finds. And a first call that fails caches nothing: the second call fails as well.
\<close>

theorem parseTime_not_memoized:
  "fst (parseTime (golib (lines [])) (zeroTick\<lparr>Time := ''0001-01-01T00:00:00Z''\<rparr>))
     = (zeroTime, None) \<and>
   fst (parseTime (golib (lines []))
          ((snd (parseTime (golib (lines [])) (zeroTick\<lparr>Time := ''0001-01-01T00:00:00Z''\<rparr>)))
             \<lparr>Time := ''20 Dec 2016''\<rparr>))
     = (zeroTime, Some (ParseError ''20 Dec 2016'')) \<and>
   fst (parseTime (golib (lines [])) (zeroTick\<lparr>Time := ''20 Dec 2016''\<rparr>))
     = (zeroTime, Some (ParseError ''20 Dec 2016'')) \<and>
   fst (parseTime (golib (lines []))
          (snd (parseTime (golib (lines [])) (zeroTick\<lparr>Time := ''20 Dec 2016''\<rparr>))))
     = (zeroTime, Some (ParseError ''20 Dec 2016''))"
  by (simp add: parseTime_def golib_def rfc3339_examples zeroTick_def zeroTime_def IsZero_def)

section \<open>Properties of the client\<close>

lemma perform_any: "perform k b = perform k b'"
  by (cases k) (simp_all add: New_def NewTransaction_def)

lemma constructions_last:
  "ks \<noteq> [] \<Longrightarrow> constructions ks b0 = (cs, b) \<Longrightarrow>
   b = snd (perform (last ks) b') \<and> cs = map (\<lambda>k. fst (perform k b')) ks"
proof (induction ks arbitrary: b0 cs b)
  case Nil
  then show ?case by simp
next
  case (Cons k ks)
  obtain c b1 where k: "perform k b0 = (c, b1)" by (cases "perform k b0")
  obtain cs' b2 where r: "constructions ks b1 = (cs', b2)" by (cases "constructions ks b1")
  have eq: "cs = c # cs'" "b = b2" using Cons.prems(2) k r by auto
  have k': "perform k b' = (c, b1)" using k perform_any [of k b0 b'] by simp
  have c: "c = fst (perform k b')" and b1: "b1 = snd (perform k b')" using k' by simp_all
  show ?case
  proof (cases "ks = []")
    case True
    then have "b = b1" "cs = [c]" using eq r by simp_all
    then show ?thesis using True c b1 by simp
  next
    case False
    then show ?thesis using Cons.IH [OF False r] eq c by simp
  qed
qed

text \<open>
  Claim C5. After any constructions, at least one, the variable \<open>baseUrl\<close> holds the
  template of the last of them, whatever it held before and whatever the earlier ones
  chose, and \<open>url\<close> of every client, the earlier ones too, formats with that template.
\<close>

theorem last_construction_selects_template:
  assumes "ks \<noteq> []" and "constructions ks b0 = (cs, b)"
  shows "b = snd (perform (last ks) b') \<and>
         cs = map (\<lambda>k. fst (perform k b')) ks \<and>
         (\<forall>c. url b c = Sprintf (snd (perform (last ks) b')) [account c, currencies c])"
  using constructions_last [OF assms, of b'] by (simp add: url_def)

theorem last_construction_selects_template_witness:
  "[CallNew ''101'' ''secret'' ''EUR_USD'' True, CallNewTransaction ''101'' ''secret'' False] \<noteq> [] \<and>
   constructions
     [CallNew ''101'' ''secret'' ''EUR_USD'' True, CallNewTransaction ''101'' ''secret'' False] []
     = ([\<lparr>account = ''101'', token = ''secret'', currencies = ''EUR_USD'', client_type = ''PRICE''\<rparr>,
         \<lparr>account = ''101'', token = ''secret'', currencies = [], client_type = ''TRANSACTION''\<rparr>],
        ''https://api-fxpractice.oanda.com/v3/accounts/%s/transactions/stream'') \<and>
   url ''https://api-fxpractice.oanda.com/v3/accounts/%s/transactions/stream''
     \<lparr>account = ''101'', token = ''secret'', currencies = ''EUR_USD'', client_type = ''PRICE''\<rparr>
     = ''https://api-fxpractice.oanda.com/v3/accounts/101/transactions/stream%!(EXTRA string=EUR_USD)''"
proof -
  let ?ks = "[CallNew ''101'' ''secret'' ''EUR_USD'' True, CallNewTransaction ''101'' ''secret'' False]"
  let ?p = "\<lparr>account = ''101'', token = ''secret'', currencies = ''EUR_USD'', client_type = ''PRICE''\<rparr>"
  let ?q = "\<lparr>account = ''101'', token = ''secret'', currencies = [], client_type = ''TRANSACTION''\<rparr>"
  let ?b = "''https://api-fxpractice.oanda.com/v3/accounts/%s/transactions/stream''"
  have h1: "?ks \<noteq> []" by simp
  have h2: "constructions ?ks [] = ([?p, ?q], ?b)"
    by (simp add: New_def NewTransaction_def)
  have "url ?b ?p = Sprintf (snd (perform (last ?ks) [])) [account ?p, currencies ?p]"
    using last_construction_selects_template [OF h1 h2, of "[]"] by blast
  then have "url ?b ?p
      = ''https://api-fxpractice.oanda.com/v3/accounts/101/transactions/stream%!(EXTRA string=EUR_USD)''"
    by (simp add: NewTransaction_def)
  then show ?thesis using h1 h2 by simp
qed


section \<open>Properties of the run loops\<close>

lemma iteration_Inl:
  "iteration d a f body s = Inl err \<longleftrightarrow>
     (\<exists>cause. body (reads s) = ReadErr cause \<and> err = errorString ''reader.ReadBytes:'' cause) \<or>
     (\<exists>data cause. body (reads s) = ReadOK data \<and> d data (target s) = Inl cause \<and>
        err = errorString ''json.Unmarshal:'' cause)"
  by (auto simp: iteration_def split: read.splits sum.splits prod.splits)

lemma iteration_Inr:
  "iteration d a f body s = Inr s' \<Longrightarrow>
     \<exists>data r. body (reads s) = ReadOK data \<and> d data (target s) = Inr r \<and>
       reads s' = Suc (reads s) \<and>
       calls s' = (if a r then calls s @ [(reads s, r)] else calls s)"
  by (auto simp: iteration_def split: read.splits sum.splits prod.splits if_splits)

lemma stream_loop_snoc:
  "stream_loop (Suc n) d a f body st =
    (case stream_loop n d a f body st of
       Returned e s \<Rightarrow> Returned e s
     | Running s \<Rightarrow>
         (case iteration d a f body s of
            Inl err \<Rightarrow> Returned (Some err) s
          | Inr s' \<Rightarrow> Running s'))"
proof (induction n arbitrary: st)
  case 0
  then show ?case by (simp split: sum.splits)
next
  case (Suc n)
  show ?case
  proof (cases "iteration d a f body st")
    case (Inl err)
    then show ?thesis by simp
  next
    case (Inr st')
    then show ?thesis using Suc.IH [of st'] by simp
  qed
qed

lemma running_reads:
  "stream_loop n d a f body st = Running s \<Longrightarrow> reads s = reads st + n"
proof (induction n arbitrary: st)
  case 0
  then show ?case by simp
next
  case (Suc n)
  then show ?case
    by (cases "iteration d a f body st") (auto dest!: iteration_Inr)
qed

lemma returned_failure:
  "stream_loop n d a f body st = Returned e s \<Longrightarrow>
     \<exists>err. e = Some err \<and> iteration d a f body s = Inl err"
proof (induction n arbitrary: st)
  case 0
  then show ?case by simp
next
  case (Suc n)
  then show ?case by (cases "iteration d a f body st") auto
qed

lemma returned_stays:
  "stream_loop n d a f body st = Returned e s \<Longrightarrow> n \<le> m \<Longrightarrow>
     stream_loop m d a f body st = Returned e s"
proof (induction m)
  case 0
  then show ?case by simp
next
  case (Suc m)
  show ?case
  proof (cases "n = Suc m")
    case True
    then show ?thesis using Suc.prems by simp
  next
    case False
    then have "stream_loop m d a f body st = Returned e s" using Suc by simp
    then show ?thesis by (simp add: stream_loop_snoc del: stream_loop.simps)
  qed
qed

lemma read_error_returns:
  "body k = ReadErr cause \<Longrightarrow> reads st \<le> k \<Longrightarrow>
     \<exists>e s. stream_loop (Suc (k - reads st)) d a f body st = Returned e s"
proof (induction "k - reads st" arbitrary: st)
  case 0
  then have "reads st = k" by simp
  then have "iteration d a f body st = Inl (errorString ''reader.ReadBytes:'' cause)"
    using 0 by (simp add: iteration_def)
  then show ?case by simp
next
  case (Suc n)
  show ?case
  proof (cases "iteration d a f body st")
    case (Inl err)
    then show ?thesis by simp
  next
    case (Inr st')
    then have r: "reads st' = Suc (reads st)" by (auto dest: iteration_Inr)
    then have "n = k - reads st'" "reads st' \<le> k" using Suc.hyps(2) by auto
    then obtain e s where "stream_loop (Suc (k - reads st')) d a f body st' = Returned e s"
      using Suc.hyps(1) [of st'] Suc.prems(1) by blast
    moreover have "Suc (k - reads st) = Suc (Suc (k - reads st'))" using r Suc.hyps(2) by simp
    ultimately show ?thesis using Inr by simp
  qed
qed

lemma trace_invariant:
  assumes "calls st0 = []" and "reads st0 = 0"
  shows "stream_loop (reads (state_of (stream_loop n d a f body st0))) d a f body st0
           = Running (state_of (stream_loop n d a f body st0)) \<and>
         reads (state_of (stream_loop n d a f body st0)) \<le> n \<and>
         (\<forall>i r. (i, r) \<in> set (calls (state_of (stream_loop n d a f body st0))) \<longleftrightarrow>
            i < reads (state_of (stream_loop n d a f body st0)) \<and>
            (\<exists>si data. stream_loop i d a f body st0 = Running si \<and> body i = ReadOK data \<and>
               d data (target si) = Inr r \<and> a r))"
  (is "?head n \<and> ?bound n \<and> ?trace n")
proof (induction n)
  case 0
  then show ?case using assms by simp
next
  case (Suc n)
  let ?run = "\<lambda>n. stream_loop n d a f body st0"
  show ?case
  proof (cases "?run n")
    case (Returned e s)
    then have "?run (Suc n) = Returned e s" by (simp add: stream_loop_snoc del: stream_loop.simps)
    then show ?thesis using Suc Returned by simp
  next
    case (Running s)
    then have rs: "reads s = n" using running_reads [of n d a f body st0 s] assms by simp
    show ?thesis
    proof (cases "iteration d a f body s")
      case (Inl err)
      then have "?run (Suc n) = Returned (Some err) s" using Running by (simp add: stream_loop_snoc del: stream_loop.simps)
      then show ?thesis using Suc Running by simp
    next
      case (Inr s')
      then have next_run: "?run (Suc n) = Running s'" using Running by (simp add: stream_loop_snoc del: stream_loop.simps)
      obtain data r0 where it: "body n = ReadOK data" "d data (target s) = Inr r0"
        "reads s' = Suc n" "calls s' = (if a r0 then calls s @ [(n, r0)] else calls s)"
        using iteration_Inr [OF Inr] rs by auto
      have old: "\<And>i r. (i, r) \<in> set (calls s) \<longleftrightarrow>
            i < n \<and> (\<exists>si data. ?run i = Running si \<and> body i = ReadOK data \<and>
               d data (target si) = Inr r \<and> a r)"
        using Suc Running rs by simp
      have "(i, r) \<in> set (calls s') \<longleftrightarrow>
            i < Suc n \<and> (\<exists>si data. ?run i = Running si \<and> body i = ReadOK data \<and>
               d data (target si) = Inr r \<and> a r)" for i r
      proof (cases "i = n")
        case True
        have "(n, r) \<notin> set (calls s)" using old [of n r] by simp
        then have "(n, r) \<in> set (calls s') \<longleftrightarrow> (r = r0 \<and> a r0)" using it(4) by auto
        also have "\<dots> \<longleftrightarrow> (\<exists>si data. ?run n = Running si \<and> body n = ReadOK data \<and>
               d data (target si) = Inr r \<and> a r)"
          using Running it(1,2) by auto
        finally show ?thesis using True by simp
      next
        case False
        then have "(i, r) \<in> set (calls s') \<longleftrightarrow> (i, r) \<in> set (calls s)" using it(4) by auto
        then show ?thesis using old [of i r] False by auto
      qed
      then show ?thesis using next_run it(3) by simp
    qed
  qed
qed


lemma Run_connected:
  "connects L (url baseUrl c) c body \<Longrightarrow>
   Run n L baseUrl c f s =
     stream_loop n (Unmarshal_Tick L) IsTradeable f body
       \<lparr>target = zeroTick, hstate = s, reads = 0, calls = []\<rparr>"
  by (simp add: Run_def connects_def)

lemma RunTransactions_connected:
  "connects L (Sprintf baseUrl [account c]) c body \<Longrightarrow>
   RunTransactions n L baseUrl c f s =
     stream_loop n (Unmarshal_Transaction L) forwarded f body
       \<lparr>target = zeroTransaction, hstate = s, reads = 0, calls = []\<rparr>"
  by (simp add: RunTransactions_def connects_def)

lemma loop_failures:
  assumes "calls st0 = []" and "reads st0 = 0"
  shows "(stream_loop n d a f body st0 = Running st \<and> body (reads st) = ReadErr cause \<longrightarrow>
            stream_loop (Suc n) d a f body st0
              = Returned (Some (errorString ''reader.ReadBytes:'' cause)) st) \<and>
         (stream_loop n d a f body st0 = Running st \<and> body (reads st) = ReadOK data \<and>
            d data (target st) = Inl cause \<longrightarrow>
            stream_loop (Suc n) d a f body st0
              = Returned (Some (errorString ''json.Unmarshal:'' cause)) st) \<and>
         (stream_loop n d a f body st0 = Returned e st \<longrightarrow>
            (\<forall>m\<ge>n. stream_loop m d a f body st0 = Returned e st) \<and>
            ((\<exists>cause. body (reads st) = ReadErr cause \<and>
                e = Some (errorString ''reader.ReadBytes:'' cause)) \<or>
             (\<exists>data cause. body (reads st) = ReadOK data \<and> d data (target st) = Inl cause \<and>
                e = Some (errorString ''json.Unmarshal:'' cause))) \<and>
            (\<forall>call\<in>set (calls st). fst call < reads st)) \<and>
         (body k = ReadErr cause \<longrightarrow> (\<exists>e st. stream_loop (Suc k) d a f body st0 = Returned e st))"
proof (intro conjI impI)
  assume "stream_loop n d a f body st0 = Running st \<and> body (reads st) = ReadErr cause"
  then show "stream_loop (Suc n) d a f body st0
              = Returned (Some (errorString ''reader.ReadBytes:'' cause)) st"
    by (simp add: stream_loop_snoc iteration_def del: stream_loop.simps)
next
  assume "stream_loop n d a f body st0 = Running st \<and> body (reads st) = ReadOK data \<and>
            d data (target st) = Inl cause"
  then show "stream_loop (Suc n) d a f body st0
              = Returned (Some (errorString ''json.Unmarshal:'' cause)) st"
    by (simp add: stream_loop_snoc iteration_def del: stream_loop.simps)
next
  assume r: "stream_loop n d a f body st0 = Returned e st"
  then show "\<forall>m\<ge>n. stream_loop m d a f body st0 = Returned e st"
    using returned_stays by blast
  show "(\<exists>cause. body (reads st) = ReadErr cause \<and>
                e = Some (errorString ''reader.ReadBytes:'' cause)) \<or>
             (\<exists>data cause. body (reads st) = ReadOK data \<and> d data (target st) = Inl cause \<and>
                e = Some (errorString ''json.Unmarshal:'' cause))"
    using returned_failure [OF r] iteration_Inl [of d a f body st] by auto
  have "state_of (stream_loop n d a f body st0) = st" using r by simp
  then show "\<forall>call\<in>set (calls st). fst call < reads st"
    using trace_invariant [OF assms, of n d a f body] by auto
next
  assume "body k = ReadErr cause"
  then show "\<exists>e st. stream_loop (Suc k) d a f body st0 = Returned e st"
    using read_error_returns [of body k cause st0 d a f] assms(2) by simp
qed

subsection \<open>The examples, evaluated\<close>

lemma foldName_tags:
  "foldName ''asks'' = ''ASKS''"
  "foldName ''bids'' = ''BIDS''"
  "foldName ''closeoutAsk'' = ''CLOSEOUTASK''"
  "foldName ''closeoutBid'' = ''CLOSEOUTBID''"
  "foldName ''instrument'' = ''INSTRUMENT''"
  "foldName ''status'' = ''STATUS''"
  "foldName ''time'' = ''TIME''"
  "foldName ''type'' = ''TYPE''"
  "foldName ''liquidity'' = ''LIQUIDITY''"
  "foldName ''price'' = ''PRICE''"
  "foldName ''id'' = ''ID''"
  "foldName ''userID'' = ''USERID''"
  "foldName ''accountID'' = ''ACCOUNTID''"
  "foldName ''batchID'' = ''BATCHID''"
  "foldName ''requestID'' = ''REQUESTID''"
  "foldName ''orderID'' = ''ORDERID''"
  "foldName ''clientOrderID'' = ''CLIENTORDERID''"
  "foldName ''units'' = ''UNITS''"
  "foldName ''homeConversionFactors'' = ''HOMECONVERSIONFACTORS''"
  "foldName ''fullVWAP'' = ''FULLVWAP''"
  "foldName ''fullPrice'' = ''FULLPRICE''"
  "foldName ''reason'' = ''REASON''"
  "foldName ''pl'' = ''PL''"
  "foldName ''quotePL'' = ''QUOTEPL''"
  "foldName ''financing'' = ''FINANCING''"
  "foldName ''baseFinancing'' = ''BASEFINANCING''"
  "foldName ''quoteFinancing'' = ''QUOTEFINANCING''"
  "foldName ''commission'' = ''COMMISSION''"
  "foldName ''guaranteedExecutionFee'' = ''GUARANTEEDEXECUTIONFEE''"
  "foldName ''quoteGuaranteedExecutionFee'' = ''QUOTEGUARANTEEDEXECUTIONFEE''"
  "foldName ''accountBalance'' = ''ACCOUNTBALANCE''"
  "foldName ''tradeOpened'' = ''TRADEOPENED''"
  "foldName ''tradeClosed'' = ''TRADECLOSED''"
  "foldName ''tradeReduced'' = ''TRADEREDUCED''"
  "foldName ''halfSpreadCost'' = ''HALFSPREADCOST''"
  by (simp_all add: upper_def)

lemma decimal_liquidity: "decimal ''10000000'' = (Finite 10000000, None)"
  by (simp add: decimal_def number_def digit_def)

lemma decode_price_line: "Unmarshal_Tick (golib body) price_line zeroTick = Inr price_tick"
  by (simp add: Unmarshal_Tick_def price_line_def Tick_member_def key_is_def foldName_tags
      store_string_def store_Quotes_def decode_Quote_def Quote_member_def store_float_def
      keep_def zeroQuote_def zeroTick_def price_tick_def golib_def decimal_liquidity
      del: foldName.simps)

lemma decode_heartbeat_line:
  "Unmarshal_Tick (golib body) heartbeat_line price_tick
     = Inr (price_tick\<lparr>Time := ''2016-12-20T05:55:46.064294036Z'', Type := ''HEARTBEAT''\<rparr>)"
  by (simp add: Unmarshal_Tick_def heartbeat_line_def Tick_member_def key_is_def foldName_tags
      store_string_def keep_def price_tick_def del: foldName.simps)

lemma golib_http:
  "http_NewRequest (golib b) m u = None" "http_Do (golib b) req = Inr b" "connects (golib b) u c b"
  by (simp_all add: golib_def connects_def)

lemma golib_time:
  "Time_UnmarshalText (golib b) ''2016-12-20T05:55:46.064294036Z''
     = Inr \<lparr>sec = 63617810146, nsec = 64294036, offset = 0\<rparr>"
  "Time_UnmarshalText (golib b) ''20 Dec 2016'' = Inl (ParseError ''20 Dec 2016'')"
  by (simp_all add: golib_def rfc3339_examples)

lemma find_type_reason:
  "find (\<lambda>fld. key_is (fst fld) ''type'') string_fields
     = Some (''type'', txType, \<lambda>x t. t\<lparr>txType := x\<rparr>)"
  "find (\<lambda>fld. key_is (fst fld) ''reason'') string_fields
     = Some (''reason'', txReason, \<lambda>x t. t\<lparr>txReason := x\<rparr>)"
  by (simp_all add: string_fields_def key_is_def foldName_tags del: foldName.simps)

lemma key_is_examples:
  "key_is ''time'' ''time''" "\<not> key_is ''time'' ''type''" "\<not> key_is ''time'' ''reason''"
  "\<not> key_is ''userID'' ''type''" "\<not> key_is ''userID'' ''reason''"
  by (simp_all add: key_is_def foldName_tags del: foldName.simps)

lemma decode_transaction_line:
  "Unmarshal_Transaction (golib b)
     (transaction_line typ reason (JString ''2016-12-20T05:55:46.064294036Z'')) t
     = Inr (t\<lparr>txType := typ, txReason := reason,
              txTime := \<lparr>sec = 63617810146, nsec = 64294036, offset = 0\<rparr>\<rparr>)"
  "Unmarshal_Transaction (golib b) (transaction_line typ reason JNull) t
     = Inr (t\<lparr>txType := typ, txReason := reason\<rparr>)"
  "Unmarshal_Transaction (golib b) (transaction_line typ reason (JString ''20 Dec 2016'')) t
     = Inl (ParseError ''20 Dec 2016'')"
  by (simp_all add: Unmarshal_Transaction_def transaction_line_def Transaction_member_def
      key_is_examples find_type_reason store_string_def keep_def
      Time_UnmarshalJSON_def golib_time)



lemma run_price_heartbeat:
  "Run 3 (golib (lines [price_line, heartbeat_line])) baseUrl c (\<lambda>t s. (t, s)) ()
     = Returned (Some (errorString ''reader.ReadBytes:'' EOF))
         \<lparr>target = price_tick\<lparr>Time := ''2016-12-20T05:55:46.064294036Z'', Type := ''HEARTBEAT''\<rparr>,
          hstate = (), reads = 2,
          calls = [(0, price_tick),
                   (1, price_tick\<lparr>Time := ''2016-12-20T05:55:46.064294036Z'', Type := ''HEARTBEAT''\<rparr>)]\<rparr>"
proof -
  have body: "lines [price_line, heartbeat_line] 0 = ReadOK price_line"
    "lines [price_line, heartbeat_line] (Suc 0) = ReadOK heartbeat_line"
    "lines [price_line, heartbeat_line] (Suc (Suc 0)) = ReadErr EOF"
    by (simp_all add: lines_def)
  have ok: "IsTradeable price_tick"
    "IsTradeable (price_tick\<lparr>Time := ''2016-12-20T05:55:46.064294036Z'', Type := ''HEARTBEAT''\<rparr>)"
    by (simp_all add: IsTradeable_def price_tick_def)
  show ?thesis
    by (simp add: Run_def golib_http eval_nat_numeral iteration_def body decode_price_line
        decode_heartbeat_line ok)
qed

subsection \<open>What reaches the handler\<close>



text \<open>
  The same for \<open>Run\<close>: the handler is called for a line exactly when the Tick that the
  line decodes to, in the Tick the loop reuses, is tradeable.
\<close>

theorem ticks_forwarded:
  assumes "connects L (url baseUrl c) c body"
  shows "(i, r) \<in> set (calls (state_of (Run n L baseUrl c f s))) \<longleftrightarrow>
           i < reads (state_of (Run n L baseUrl c f s)) \<and>
           (\<exists>si data. Run i L baseUrl c f s = Running si \<and> body i = ReadOK data \<and>
              Unmarshal_Tick L data (target si) = Inr r \<and> IsTradeable r)"
  using trace_invariant [of "\<lparr>target = zeroTick, hstate = s, reads = 0, calls = []\<rparr>" n
      "Unmarshal_Tick L" IsTradeable f body]
  by (simp add: Run_connected [OF assms])

theorem ticks_forwarded_witness:
  "connects (golib (lines [price_line, heartbeat_line])) (url [] example_client) example_client
     (lines [price_line, heartbeat_line]) \<and>
   (\<exists>si data.
      Run 0 (golib (lines [price_line, heartbeat_line])) [] example_client (\<lambda>t s. (t, s)) ()
        = Running si \<and>
      lines [price_line, heartbeat_line] 0 = ReadOK data \<and>
      Unmarshal_Tick (golib (lines [price_line, heartbeat_line])) data (target si) = Inr price_tick \<and>
      IsTradeable price_tick)"
proof -
  let ?L = "golib (lines [price_line, heartbeat_line])"
  have h: "connects ?L (url [] example_client) example_client (lines [price_line, heartbeat_line])"
    by (rule golib_http)
  have "(0, price_tick) \<in> set (calls (state_of (Run 3 ?L [] example_client (\<lambda>t s. (t, s)) ())))"
    by (simp add: run_price_heartbeat)
  then show ?thesis
    using ticks_forwarded [OF h, of 0 price_tick 3 "\<lambda>t s. (t, s)" "()"] h by simp
qed

text \<open>
  Claim C1. The loop decodes every line into the same Tick, and a heartbeat has no
  \<open>status\<close>: after a tradeable price the Tick still says \<open>tradeable\<close> when the
  heartbeat has been decoded, and the handler is called for the heartbeat, line 1.
\<close>

theorem heartbeat_reaches_handler:
  "calls (state_of (Run 3 (golib (lines [price_line, heartbeat_line])) baseUrl c (\<lambda>t s. (t, s)) ()))
     = [(0, price_tick),
        (1, price_tick\<lparr>Time := ''2016-12-20T05:55:46.064294036Z'', Type := ''HEARTBEAT''\<rparr>)] \<and>
   IsHeartbeat (price_tick\<lparr>Time := ''2016-12-20T05:55:46.064294036Z'', Type := ''HEARTBEAT''\<rparr>) \<and>
   Unmarshal_Tick (golib (lines [price_line, heartbeat_line])) heartbeat_line price_tick
     = Inr (price_tick\<lparr>Time := ''2016-12-20T05:55:46.064294036Z'', Type := ''HEARTBEAT''\<rparr>)"
  by (simp add: run_price_heartbeat decode_heartbeat_line IsHeartbeat_def)

lemma Tick_member_parsedTime:
  "parsedTime (fst (Tick_member L acc m)) = parsedTime (fst acc)"
  by (cases acc; cases m) (simp add: Tick_member_def split: prod.splits)

lemma Tick_members_parsedTime:
  "parsedTime (fst (foldl (Tick_member L) acc ms)) = parsedTime (fst acc)"
  by (induction ms arbitrary: acc) (simp_all add: Tick_member_parsedTime)

text \<open>
  The decode never writes \<open>parsedTime\<close>. So when the handler has made the Tick parse
  its time, the cache outlives the decode of the next line, and \<open>UnixTimestamp\<close> and
  \<open>Nanoseconds\<close> on the Tick of the next line return the time of the earlier one.
\<close>

theorem cached_time_survives_decode:
  assumes "Unmarshal_Tick L data t = Inr t'" and "\<not> IsZero (parsedTime t)"
  shows "parsedTime t' = parsedTime t \<and>
         UnixTimestamp L t' = ((Unix (parsedTime t), None), t') \<and>
         Nanoseconds L t' = ((word_of_int (Nanosecond (parsedTime t)), None), t')"
proof -
  have "parsedTime t' = parsedTime t"
  proof (cases data)
    case Malformed
    then show ?thesis using assms(1) by (simp add: Unmarshal_Tick_def)
  next
    case (Doc v)
    show ?thesis
    proof (cases v)
      case (JObject ms)
      then have "t' = fst (foldl (Tick_member L) (t, None) ms)"
        using assms(1) Doc by (auto simp: Unmarshal_Tick_def split: prod.splits option.splits)
      then show ?thesis using Tick_members_parsedTime [of L "(t, None)" ms] by simp
    qed (use assms(1) Doc in \<open>simp_all add: Unmarshal_Tick_def\<close>)
  qed
  then show ?thesis using assms(2)
    by (simp add: UnixTimestamp_def Nanoseconds_def parseTime_def)
qed

theorem cached_time_survives_decode_witness:
  "Unmarshal_Tick (golib (lines [])) heartbeat_line
     (price_tick\<lparr>parsedTime := \<lparr>sec = 63617810135, nsec = 676011610, offset = 0\<rparr>\<rparr>)
     = Inr (price_tick\<lparr>Time := ''2016-12-20T05:55:46.064294036Z'', Type := ''HEARTBEAT'',
              parsedTime := \<lparr>sec = 63617810135, nsec = 676011610, offset = 0\<rparr>\<rparr>) \<and>
   \<not> IsZero \<lparr>sec = 63617810135, nsec = 676011610, offset = 0\<rparr> \<and>
   UnixTimestamp (golib (lines []))
     (price_tick\<lparr>Time := ''2016-12-20T05:55:46.064294036Z'', Type := ''HEARTBEAT'',
              parsedTime := \<lparr>sec = 63617810135, nsec = 676011610, offset = 0\<rparr>\<rparr>)
     = ((1482213335, None),
        price_tick\<lparr>Time := ''2016-12-20T05:55:46.064294036Z'', Type := ''HEARTBEAT'',
              parsedTime := \<lparr>sec = 63617810135, nsec = 676011610, offset = 0\<rparr>\<rparr>) \<and>
   fst (rfc3339 ''2016-12-20T05:55:35.676011610Z'')
     = \<lparr>sec = 63617810135, nsec = 676011610, offset = 0\<rparr>"
proof -
  let ?L = "golib (lines [])"
  let ?v = "\<lparr>sec = 63617810135, nsec = 676011610, offset = 0\<rparr>"
  let ?t = "price_tick\<lparr>parsedTime := ?v\<rparr>"
  let ?t' = "price_tick\<lparr>Time := ''2016-12-20T05:55:46.064294036Z'', Type := ''HEARTBEAT'',
              parsedTime := ?v\<rparr>"
  have h1: "Unmarshal_Tick ?L heartbeat_line ?t = Inr ?t'"
    by (simp add: Unmarshal_Tick_def heartbeat_line_def Tick_member_def key_is_def foldName_tags
      store_string_def keep_def price_tick_def del: foldName.simps)
  have h2: "\<not> IsZero (parsedTime ?t)" by (simp add: IsZero_def)
  have p: "fst (rfc3339 ''2016-12-20T05:55:35.676011610Z'') = ?v"
    by (simp add: rfc3339_def rfc3339_fields_def number_def digit_def fraction_def zone_def
        days_before_def days_in_def leap_def upt_rec)
  have "UnixTimestamp ?L ?t' = ((Unix (parsedTime ?t), None), ?t')"
    using cached_time_survives_decode [OF h1 h2] by blast
  then have "UnixTimestamp ?L ?t' = ((1482213335, None), ?t')" by (simp add: Unix_def)
  then show ?thesis using h1 h2 p by simp
qed


subsection \<open>How the loops end\<close>

text \<open>
  Claim C6. In both loops, once connected: a read that fails, the end of the stream
  included, and a line that does not decode each make the very next step return the
  error that wraps the cause, from the state the loop was in, so the handler is not
  called for that line and no later line is read; a run that has returned stays
  returned; it returned one of these two errors, never nil, and the handler was called
  for earlier lines only; and a body with a failing read makes the run return.
\<close>

theorem run_loops_return_first_failure:
  assumes "connects L (url baseUrl c) c body"
    and "connects L (Sprintf baseUrl [account c']) c' body'"
  shows "(Run n L baseUrl c f s = Running st \<and> body (reads st) = ReadErr cause \<longrightarrow>
            Run (Suc n) L baseUrl c f s
              = Returned (Some (errorString ''reader.ReadBytes:'' cause)) st) \<and>
         (Run n L baseUrl c f s = Running st \<and> body (reads st) = ReadOK data \<and>
            Unmarshal_Tick L data (target st) = Inl cause \<longrightarrow>
            Run (Suc n) L baseUrl c f s
              = Returned (Some (errorString ''json.Unmarshal:'' cause)) st) \<and>
         (Run n L baseUrl c f s = Returned e st \<longrightarrow>
            (\<forall>m\<ge>n. Run m L baseUrl c f s = Returned e st) \<and>
            ((\<exists>cause. body (reads st) = ReadErr cause \<and>
                e = Some (errorString ''reader.ReadBytes:'' cause)) \<or>
             (\<exists>data cause. body (reads st) = ReadOK data \<and>
                Unmarshal_Tick L data (target st) = Inl cause \<and>
                e = Some (errorString ''json.Unmarshal:'' cause))) \<and>
            (\<forall>call\<in>set (calls st). fst call < reads st)) \<and>
         (body k = ReadErr cause \<longrightarrow> (\<exists>e st. Run (Suc k) L baseUrl c f s = Returned e st)) \<and>
         (RunTransactions n L baseUrl c' g s' = Running st' \<and> body' (reads st') = ReadErr cause \<longrightarrow>
            RunTransactions (Suc n) L baseUrl c' g s'
              = Returned (Some (errorString ''reader.ReadBytes:'' cause)) st') \<and>
         (RunTransactions n L baseUrl c' g s' = Running st' \<and> body' (reads st') = ReadOK data \<and>
            Unmarshal_Transaction L data (target st') = Inl cause \<longrightarrow>
            RunTransactions (Suc n) L baseUrl c' g s'
              = Returned (Some (errorString ''json.Unmarshal:'' cause)) st') \<and>
         (RunTransactions n L baseUrl c' g s' = Returned e st' \<longrightarrow>
            (\<forall>m\<ge>n. RunTransactions m L baseUrl c' g s' = Returned e st') \<and>
            ((\<exists>cause. body' (reads st') = ReadErr cause \<and>
                e = Some (errorString ''reader.ReadBytes:'' cause)) \<or>
             (\<exists>data cause. body' (reads st') = ReadOK data \<and>
                Unmarshal_Transaction L data (target st') = Inl cause \<and>
                e = Some (errorString ''json.Unmarshal:'' cause))) \<and>
            (\<forall>call\<in>set (calls st'). fst call < reads st')) \<and>
         (body' k = ReadErr cause \<longrightarrow>
            (\<exists>e st. RunTransactions (Suc k) L baseUrl c' g s' = Returned e st))"
proof -
  have ticks: "\<And>m. Run m L baseUrl c f s =
      stream_loop m (Unmarshal_Tick L) IsTradeable f body
        \<lparr>target = zeroTick, hstate = s, reads = 0, calls = []\<rparr>"
    using assms(1) by (rule Run_connected)
  have transactions: "\<And>m. RunTransactions m L baseUrl c' g s' =
      stream_loop m (Unmarshal_Transaction L) forwarded g body'
        \<lparr>target = zeroTransaction, hstate = s', reads = 0, calls = []\<rparr>"
    using assms(2) by (rule RunTransactions_connected)
  show ?thesis
    unfolding ticks transactions
    using loop_failures [of "\<lparr>target = zeroTick, hstate = s, reads = 0, calls = []\<rparr>" n
        "Unmarshal_Tick L" IsTradeable f body st cause data e k]
      loop_failures [of "\<lparr>target = zeroTransaction, hstate = s', reads = 0, calls = []\<rparr>" n
        "Unmarshal_Transaction L" forwarded g body' st' cause data e k]
    by simp
qed

theorem run_loops_return_first_failure_witness:
  "connects (golib (lines [])) (url [] example_client) example_client (lines []) \<and>
   connects (golib (lines [])) (Sprintf [] [account example_client]) example_client (lines []) \<and>
   Run 1 (golib (lines [])) [] example_client (\<lambda>t s. (t, s)) ()
     = Returned (Some (errorString ''reader.ReadBytes:'' EOF))
         \<lparr>target = zeroTick, hstate = (), reads = 0, calls = []\<rparr> \<and>
   RunTransactions 1 (golib (lines [Malformed])) [] example_client (\<lambda>t s. (t, s)) ()
     = Returned (Some (errorString ''json.Unmarshal:'' SyntaxError))
         \<lparr>target = zeroTransaction, hstate = (), reads = 0, calls = []\<rparr>"
proof -
  let ?f = "\<lambda>t s. (t, s)"
  let ?st = "\<lparr>target = zeroTick, hstate = (), reads = 0, calls = []\<rparr>"
  let ?st' = "\<lparr>target = zeroTransaction, hstate = (), reads = 0, calls = []\<rparr>"
  have h: "connects (golib b) (url [] example_client) example_client b"
    "connects (golib b) (Sprintf [] [account example_client]) example_client b" for b
    by (rule golib_http)+
  have start: "Run 0 (golib (lines [])) [] example_client ?f () = Running ?st"
    "RunTransactions 0 (golib (lines [Malformed])) [] example_client ?f () = Running ?st'"
    by (simp_all add: Run_def RunTransactions_def golib_http)
  have body: "lines [] (reads ?st) = ReadErr EOF" "lines [Malformed] (reads ?st') = ReadOK Malformed"
    by (simp_all add: lines_def)
  have dec: "Unmarshal_Transaction (golib (lines [Malformed])) Malformed (target ?st') = Inl SyntaxError"
    by (simp add: Unmarshal_Transaction_def)
  have "Run 1 (golib (lines [])) [] example_client ?f ()
          = Returned (Some (errorString ''reader.ReadBytes:'' EOF)) ?st"
    using run_loops_return_first_failure [where n = 0 and f = ?f and s = "()" and st = ?st
        and cause = EOF, OF h(1) [of "lines []"] h(2) [of "lines []"], THEN conjunct1]
      start(1) body(1) by simp
  moreover have "RunTransactions 1 (golib (lines [Malformed])) [] example_client ?f ()
          = Returned (Some (errorString ''json.Unmarshal:'' SyntaxError)) ?st'"
    using run_loops_return_first_failure [where n = 0 and g = ?f and s' = "()" and st' = ?st'
        and cause = SyntaxError and data = Malformed,
        OF h(1) [of "lines [Malformed]"] h(2) [of "lines [Malformed]"],
        THEN conjunct2, THEN conjunct2, THEN conjunct2, THEN conjunct2, THEN conjunct2,
        THEN conjunct1]
      start(2) body(2) dec by simp
  ultimately show ?thesis using h by simp
qed

subsection \<open>The time of a transaction\<close>

lemma bad_time_member:
  "key_is ''time'' k \<Longrightarrow> bad_time L v \<Longrightarrow> \<exists>err. Transaction_member L acc (k, v) = Inl err"
  by (cases acc; cases v)
    (auto simp: Transaction_member_def Time_UnmarshalJSON_def bad_time_def isl_def)

lemma bad_time_members:
  "(k, v) \<in> set ms \<Longrightarrow> key_is ''time'' k \<Longrightarrow> bad_time L v \<Longrightarrow>
   \<exists>err. Transaction_members L ms acc = Inl err"
proof (induction ms arbitrary: acc)
  case Nil
  then show ?case by simp
next
  case (Cons m ms)
  show ?case
  proof (cases "Transaction_member L acc m")
    case (Inl err)
    then show ?thesis by simp
  next
    case (Inr acc')
    then have "m \<noteq> (k, v)" using bad_time_member [OF Cons.prems(2,3), of acc] by auto
    then have "(k, v) \<in> set ms" using Cons.prems(1) by simp
    then show ?thesis using Cons.IH [of acc'] Cons.prems(2,3) Inr by simp
  qed
qed

text \<open>
  Claim C10, as the code has it. A transaction line with a \<open>time\<close> key (in any letter
  case) whose value is neither \<open>null\<close> nor a string that \<open>time.Time\<close> can parse does not
  decode, and \<open>RunTransactions\<close> returns the decode error on reading it, from the state
  it was in: neither the filter nor the handler runs.
\<close>

theorem bad_time_fails_decode:
  assumes "(k, v) \<in> set ms" and "key_is ''time'' k" and "bad_time L v"
  shows "(\<exists>err. Unmarshal_Transaction L (Doc (JObject ms)) t = Inl err) \<and>
         (connects L (Sprintf baseUrl [account c]) c body \<and>
          RunTransactions n L baseUrl c f s = Running st \<and>
          body (reads st) = ReadOK (Doc (JObject ms)) \<longrightarrow>
          (\<exists>err. RunTransactions (Suc n) L baseUrl c f s
                    = Returned (Some (errorString ''json.Unmarshal:'' err)) st))"
proof -
  have dec: "\<exists>err. Unmarshal_Transaction L (Doc (JObject ms)) t = Inl err" for t
    using bad_time_members [OF assms, of "(t, None)"] by (auto simp: Unmarshal_Transaction_def)
  show ?thesis
  proof (intro conjI impI)
    show "\<exists>err. Unmarshal_Transaction L (Doc (JObject ms)) t = Inl err" by (rule dec)
  next
    assume a: "connects L (Sprintf baseUrl [account c]) c body \<and>
          RunTransactions n L baseUrl c f s = Running st \<and>
          body (reads st) = ReadOK (Doc (JObject ms))"
    obtain err where err: "Unmarshal_Transaction L (Doc (JObject ms)) (target st) = Inl err"
      using dec by blast
    have con: "connects L (Sprintf baseUrl [account c]) c body" using a by simp
    have "RunTransactions m L baseUrl c f s =
        stream_loop m (Unmarshal_Transaction L) forwarded f body
          \<lparr>target = zeroTransaction, hstate = s, reads = 0, calls = []\<rparr>" for m
      using con by (rule RunTransactions_connected)
    then show "\<exists>err. RunTransactions (Suc n) L baseUrl c f s
                    = Returned (Some (errorString ''json.Unmarshal:'' err)) st"
      using a err by (simp add: stream_loop_snoc iteration_def del: stream_loop.simps)
  qed
qed



theorem bad_time_fails_decode_witness:
  "(''time'', JString ''20 Dec 2016'')
     \<in> set [(''type'', JString ''ORDER_FILL''), (''reason'', JString ''TAKE_PROFIT_ORDER''),
            (''time'', JString ''20 Dec 2016'')] \<and>
   key_is ''time'' ''time'' \<and>
   bad_time (golib (lines [])) (JString ''20 Dec 2016'') \<and>
   (\<exists>err. Unmarshal_Transaction (golib (lines []))
            (Doc (JObject [(''type'', JString ''ORDER_FILL''),
                           (''reason'', JString ''TAKE_PROFIT_ORDER''),
                           (''time'', JString ''20 Dec 2016'')])) zeroTransaction = Inl err)"
proof -
  have h1: "(''time'', JString ''20 Dec 2016'')
     \<in> set [(''type'', JString ''ORDER_FILL''), (''reason'', JString ''TAKE_PROFIT_ORDER''),
            (''time'', JString ''20 Dec 2016'')]" by simp
  have h2: "key_is ''time'' ''time''" by (rule key_is_examples)
  have h3: "bad_time (golib (lines [])) (JString ''20 Dec 2016'')"
    by (simp add: bad_time_def golib_time)
  have "\<exists>err. Unmarshal_Transaction (golib (lines []))
            (Doc (JObject [(''type'', JString ''ORDER_FILL''),
                           (''reason'', JString ''TAKE_PROFIT_ORDER''),
                           (''time'', JString ''20 Dec 2016'')])) zeroTransaction = Inl err"
    using bad_time_fails_decode [OF h1 h2 h3, THEN conjunct1] .
  then show ?thesis using h1 h2 h3 by simp
qed

text \<open>
  Claim C10 as stated fails for \<open>null\<close>: a line whose \<open>time\<close> is \<open>null\<close> has the key, and
  its value is no timestamp, yet \<open>UnmarshalJSON\<close> ignores \<open>null\<close>; the line decodes,
  the time stays as it was, and the handler is called for it.
\<close>

theorem null_time_decodes:
  "Unmarshal_Transaction (golib (lines [])) (transaction_line ''ORDER_FILL'' ''TAKE_PROFIT_ORDER'' JNull)
     zeroTransaction
     = Inr (zeroTransaction\<lparr>txType := ''ORDER_FILL'', txReason := ''TAKE_PROFIT_ORDER''\<rparr>) \<and>
   RunTransactions 2 (golib (lines [transaction_line ''ORDER_FILL'' ''TAKE_PROFIT_ORDER'' JNull]))
     [] example_client (\<lambda>t s. (t, s)) ()
     = Returned (Some (errorString ''reader.ReadBytes:'' EOF))
         \<lparr>target = zeroTransaction\<lparr>txType := ''ORDER_FILL'', txReason := ''TAKE_PROFIT_ORDER''\<rparr>,
          hstate = (), reads = 1,
          calls = [(0, zeroTransaction\<lparr>txType := ''ORDER_FILL'', txReason := ''TAKE_PROFIT_ORDER''\<rparr>)]\<rparr>"
  by (simp add: RunTransactions_def golib_http eval_nat_numeral iteration_def lines_def
      decode_transaction_line forwarded_def IsOrderFill_def IsTakeProfitOrder_def)


end
